theory Spec2Isabelle
  imports Complex_Main "HOL-Library.Sublist"
begin

section \<open>Values, documents and the document store\<close>

text \<open>
  The application keeps everything in MongoDB collections reached through pymongo.
  A stored document is a dictionary from field names to values, a collection is the
  list of its documents in natural (insertion) order, and the database maps a
  collection name to its collection (MongoDB creates a collection on first use, so
  every name has one, empty at first). The operations are modelled on a live
  store.

  Python floats are modelled as reals: the code only compares them with integer
  constants and adds small integers to them, which floats do exactly. Strings are
  byte strings, in UTF-8.
\<close>

datatype val =
    Null
  | Str string
  | Num real
  | Bool bool
  | Oid string
  | Time nat
  | StrList "string list"
  | Dict "(string \<times> real) list"

type_synonym doc = "string \<rightharpoonup> val"

text \<open>
  MongoDB gives every stored document an \<open>_id\<close>, here always an ObjectId made by the
  driver: a stored document is that identifier (as its 24 digit string) together with
  its other fields.
\<close>

type_synonym stored = "string \<times> doc"
type_synonym collection = "stored list"
type_synonym database = "string \<Rightarrow> collection"

definition field :: "stored \<Rightarrow> string \<Rightarrow> val option" where
  "field sd k = (if k = ''_id'' then Some (Oid (fst sd)) else snd sd k)"

text \<open>
  The exceptions the handlers can raise. \<open>HTTPException\<close> carries the status code and
  names the detail message; \<open>InvalidId\<close> is bson's own exception, raised by a bare
  \<open>ObjectId(s)\<close>; \<open>StoreUnavailable\<close> is the failure of the store adapter when
  the store has no live connection; \<open>RuntimeError\<close> is the one that
  src/backend/database.py raises, \<open>Database not initialized\<close>.
\<close>

datatype detail =
    Invalid_ID
  | Student_not_found
  | Micro_range
  | Big_range
  | Donation_not_found
  | Amount_out_of_micro_range
  | Amount_out_of_big_range

datatype error =
    InvalidId
  | StoreUnavailable
  | RuntimeError
  | HTTPException nat detail

subsection \<open>Object identifiers\<close>

text \<open>
  bson's \<open>ObjectId(s)\<close> accepts a string of 24 characters that \<open>bytes.fromhex\<close>
  reads, and raises \<open>InvalidId\<close> otherwise. \<open>bytes.fromhex\<close> reads pairs of
  hexadecimal digits, in either case, and skips ASCII whitespace between the pairs.
  \<open>str\<close> of an ObjectId prints the bytes read as lower-case hexadecimal digits, and an
  ObjectId is modelled by that string: 24 digits, or fewer when the string had
  whitespace in it.
\<close>

definition hexdigit :: "char \<Rightarrow> bool" where
  "hexdigit c = (c \<in> set ''0123456789abcdefABCDEF'')"

definition lower_hex :: "char \<Rightarrow> char" where
  "lower_hex c =
     (if c = CHR ''A'' then CHR ''a'' else if c = CHR ''B'' then CHR ''b''
      else if c = CHR ''C'' then CHR ''c'' else if c = CHR ''D'' then CHR ''d''
      else if c = CHR ''E'' then CHR ''e'' else if c = CHR ''F'' then CHR ''f''
      else c)"

definition isspace :: "char \<Rightarrow> bool" where
  "isspace c = (c \<in> set [CHR 0x20, CHR 0x09, CHR 0x0A, CHR 0x0B, CHR 0x0C, CHR 0x0D])"

fun fromhex :: "string \<Rightarrow> string option" where
  "fromhex [] = Some []"
| "fromhex [c] = (if isspace c then Some [] else None)"
| "fromhex (c # d # cs) =
     (if isspace c then fromhex (d # cs)
      else if hexdigit c \<and> hexdigit d
      then map_option (\<lambda>h. lower_hex c # lower_hex d # h) (fromhex cs)
      else None)"

definition ObjectId :: "string \<Rightarrow> error + string" where
  "ObjectId s =
     (if length s = 24
      then (case fromhex s of Some h \<Rightarrow> Inr h | None \<Rightarrow> Inl InvalidId)
      else Inl InvalidId)"

text \<open>\<open>oid\<close> of src/main.py: any failure of \<open>ObjectId\<close> becomes HTTP 400.\<close>

definition oid :: "string \<Rightarrow> error + string" where
  "oid s = (case ObjectId s of Inl _ \<Rightarrow> Inl (HTTPException 400 Invalid_ID) | Inr i \<Rightarrow> Inr i)"

subsection \<open>Queries\<close>

text \<open>
  The filters the handlers build: a conjunction of conditions on fields, or the
  \<open>$or\<close> of such conjunctions. A condition is an equality, \<open>$ne\<close>, or a
  case-insensitive \<open>$regex\<close>. A regular expression is kept parsed, as the list of
  its atoms: a literal character or the dot.
\<close>

datatype atom = Lit char | AnyChar

datatype cond = Eq val | Ne val | Regex_i "atom list"

datatype query = Fields "(string \<times> cond) list" | Or "(string \<times> cond) list list"

definition ascii_lower :: "char \<Rightarrow> char" where
  "ascii_lower c =
     (case map_of (zip ''ABCDEFGHIJKLMNOPQRSTUVWXYZ'' ''abcdefghijklmnopqrstuvwxyz'') c of
        Some l \<Rightarrow> l | None \<Rightarrow> c)"

definition ascii_upper :: "char \<Rightarrow> char" where
  "ascii_upper c =
     (case map_of (zip ''abcdefghijklmnopqrstuvwxyz'' ''ABCDEFGHIJKLMNOPQRSTUVWXYZ'') c of
        Some u \<Rightarrow> u | None \<Rightarrow> c)"

text \<open>
  Python's \<open>str.upper()\<close>, on a string in UTF-8. It follows Unicode. Ten characters
  outside ASCII have an upper case made of ASCII letters: the sharp s (U+00DF, the bytes
  C3 9F), the dotless i (U+0131, C4 B1), the long s (U+017F, C5 BF) and the seven
  ligatures U+FB00 to U+FB06 (EF AC 80 to EF AC 86). The upper case of every other
  character outside ASCII has a character outside ASCII, and is not modelled further:
  such a character is left as it is, which changes no comparison of the result with an
  ASCII string.
\<close>

definition upper2 :: "char \<Rightarrow> char \<Rightarrow> string option" where
  "upper2 c d = map_of
     [([CHR 0xC3, CHR 0x9F], ''SS''), ([CHR 0xC4, CHR 0xB1], ''I''), ([CHR 0xC5, CHR 0xBF], ''S'')]
     [c, d]"

definition upper3 :: "char \<Rightarrow> char \<Rightarrow> char \<Rightarrow> string option" where
  "upper3 c d e =
     (if c = CHR 0xEF \<and> d = CHR 0xAC
      then map_of [(CHR 0x80, ''FF''), (CHR 0x81, ''FI''), (CHR 0x82, ''FL''), (CHR 0x83, ''FFI''),
                   (CHR 0x84, ''FFL''), (CHR 0x85, ''ST''), (CHR 0x86, ''ST'')] e
      else None)"

fun py_upper :: "string \<Rightarrow> string" where
  "py_upper [] = []"
| "py_upper [c] = [ascii_upper c]"
| "py_upper [c, d] =
     (case upper2 c d of Some u \<Rightarrow> u | None \<Rightarrow> ascii_upper c # py_upper [d])"
| "py_upper (c # d # e # cs) =
     (case upper3 c d e of
        Some u \<Rightarrow> u @ py_upper cs
      | None \<Rightarrow>
          (case upper2 c d of
             Some u \<Rightarrow> u @ py_upper (e # cs)
           | None \<Rightarrow> ascii_upper c # py_upper (d # e # cs)))"

text \<open>An atom against a character, ignoring the case of the ASCII letters; the dot
  matches all but a newline.\<close>

fun atom_matches :: "atom \<Rightarrow> char \<Rightarrow> bool" where
  "atom_matches (Lit a) c = (ascii_lower a = ascii_lower c)"
| "atom_matches AnyChar c = (c \<noteq> CHR 0x0A)"

fun match_here :: "atom list \<Rightarrow> string \<Rightarrow> bool" where
  "match_here [] s = True"
| "match_here (a # as) [] = False"
| "match_here (a # as) (c # cs) = (atom_matches a c \<and> match_here as cs)"

text \<open>An unanchored regular expression matches when it matches at some position.\<close>

fun regex_search :: "atom list \<Rightarrow> string \<Rightarrow> bool" where
  "regex_search as [] = match_here as []"
| "regex_search as (c # cs) = (match_here as (c # cs) \<or> regex_search as cs)"



text \<open>
  MongoDB's matching of one condition: equality with null also matches a missing
  field, \<open>$ne\<close> is its negation, and a regular expression matches string values only.
\<close>

definition field_equals :: "stored \<Rightarrow> string \<Rightarrow> val \<Rightarrow> bool" where
  "field_equals sd k v =
     (if v = Null then field sd k = None \<or> field sd k = Some Null else field sd k = Some v)"

fun matches_cond :: "stored \<Rightarrow> string \<times> cond \<Rightarrow> bool" where
  "matches_cond sd (k, Eq v) = field_equals sd k v"
| "matches_cond sd (k, Ne v) = (\<not> field_equals sd k v)"
| "matches_cond sd (k, Regex_i as) =
     (case field sd k of Some (Str s) \<Rightarrow> regex_search as s | _ \<Rightarrow> False)"

fun matches :: "query \<Rightarrow> stored \<Rightarrow> bool" where
  "matches (Fields cs) sd = list_all (matches_cond sd) cs"
| "matches (Or qs) sd = list_ex (\<lambda>cs. list_all (matches_cond sd) cs) qs"

subsection \<open>Collection operations of pymongo\<close>

definition find_one :: "collection \<Rightarrow> query \<Rightarrow> stored option" where
  "find_one c q = List.find (matches q) c"

definition count_documents :: "collection \<Rightarrow> query \<Rightarrow> nat" where
  "count_documents c q = length (filter (matches q) c)"

text \<open>\<open>update_one\<close> with \<open>$set\<close>: the first matching document takes the patch's fields;
  nothing happens when no document matches.\<close>

fun update_one :: "collection \<Rightarrow> query \<Rightarrow> doc \<Rightarrow> collection" where
  "update_one [] q p = []"
| "update_one (sd # ds) q p =
     (if matches q sd then (fst sd, snd sd ++ p) # ds else sd # update_one ds q p)"

text \<open>\<open>insert_one\<close>: the driver gives the document its \<open>_id\<close>, and it is appended.\<close>

definition insert_one :: "collection \<Rightarrow> doc \<Rightarrow> string \<Rightarrow> collection" where
  "insert_one c d new_id = c @ [(new_id, d)]"

text \<open>
  \<open>find(q).limit(n)\<close>: pymongo documents that a limit of 0 is no limit; a negative
  limit is sent as its absolute value.
\<close>

definition limit_cursor :: "int \<Rightarrow> 'a list \<Rightarrow> 'a list" where
  "limit_cursor n ds = (if n = 0 then ds else take (nat \<bar>n\<bar>) ds)"



section \<open>The trust score (src/main.py)\<close>

text \<open>
  Lines 40 to 48 of \<open>compute_trust_score\<close>: the score from the KYC document found
  (if any) and the number of proofs.
\<close>

definition score_of :: "stored option \<Rightarrow> nat \<Rightarrow> real" where
  "score_of kyc proofs_count =
     (let score = 10;
          score = (case kyc of
                     None \<Rightarrow> score
                   | Some k \<Rightarrow>
                       (let score = score + 30 in
                        if field k ''status'' = Some (Str ''verified'') then score + 30
                        else if field k ''status'' = Some (Str ''pending'') then score + 10
                        else score));
          score = score + real (min 30 (proofs_count * 5))
      in max 0 (min 100 score))"

definition compute_trust_score :: "database \<Rightarrow> string \<Rightarrow> error + real" where
  "compute_trust_score db student_id =
     (case oid student_id of
        Inl e \<Rightarrow> Inl e
      | Inr sid \<Rightarrow>
          (case find_one (db ''student'') (Fields [(''_id'', Eq (Oid sid))]) of
             None \<Rightarrow> Inl (HTTPException 404 Student_not_found)
           | Some student \<Rightarrow>
               (let kyc = find_one (db ''kycdocument'')
                            (Fields [(''student_id'', Eq (Str student_id))]);
                    proofs_count =
                      count_documents (db ''proofsubmission'')
                        (Fields [(''student_id'', Eq (Str student_id))])
                in Inr (score_of kyc proofs_count))))"

section \<open>The request models of src/schemas.py\<close>

text \<open>
  A handler receives a request body that pydantic has validated, so a field of a
  \<open>Literal\<close> type is a datatype here. The fields of each model carry a prefix, since
  several models share field names. \<open>model_dump\<close> gives the dictionary that is stored.
\<close>

datatype student_kyc = Not_submitted | Pending | Verified | Rejected

fun student_kyc_str :: "student_kyc \<Rightarrow> string" where
  "student_kyc_str Not_submitted = ''not_submitted''"
| "student_kyc_str Pending = ''pending''"
| "student_kyc_str Verified = ''verified''"
| "student_kyc_str Rejected = ''rejected''"

datatype kyc_state = KYC_pending | KYC_verified | KYC_rejected

fun kyc_state_str :: "kyc_state \<Rightarrow> string" where
  "kyc_state_str KYC_pending = ''pending''"
| "kyc_state_str KYC_verified = ''verified''"
| "kyc_state_str KYC_rejected = ''rejected''"

datatype scholarship = Micro | Big

fun scholarship_str :: "scholarship \<Rightarrow> string" where
  "scholarship_str Micro = ''micro''"
| "scholarship_str Big = ''big''"

datatype gateway = Upi | Cards | Netbanking | Paypal | Stripe | Gpay | Applepay | Intl_wallet

fun gateway_str :: "gateway \<Rightarrow> string" where
  "gateway_str Upi = ''upi''"
| "gateway_str Cards = ''cards''"
| "gateway_str Netbanking = ''netbanking''"
| "gateway_str Paypal = ''paypal''"
| "gateway_str Stripe = ''stripe''"
| "gateway_str Gpay = ''gpay''"
| "gateway_str Applepay = ''applepay''"
| "gateway_str Intl_wallet = ''intl_wallet''"

datatype donation_status = Created | Processing | Succeeded | Failed | Refunded

fun donation_status_str :: "donation_status \<Rightarrow> string" where
  "donation_status_str Created = ''created''"
| "donation_status_str Processing = ''processing''"
| "donation_status_str Succeeded = ''succeeded''"
| "donation_status_str Failed = ''failed''"
| "donation_status_str Refunded = ''refunded''"

definition opt_str :: "string option \<Rightarrow> val" where
  "opt_str x = (case x of None \<Rightarrow> Null | Some s \<Rightarrow> Str s)"

definition opt_num :: "real option \<Rightarrow> val" where
  "opt_num x = (case x of None \<Rightarrow> Null | Some r \<Rightarrow> Num r)"

record Student =
  s_full_name :: string
  s_email :: string
  s_phone :: "string option"
  s_school_name :: string
  s_class_grade :: "string option"
  s_address :: "string option"
  s_country :: "string option"
  s_city :: "string option"
  s_location :: "(string \<times> real) list option"
  s_languages :: "string list"
  s_trust_score :: real
  s_kyc_status :: student_kyc
  s_created_at :: "nat option"

definition Student_dump :: "Student \<Rightarrow> doc" where
  "Student_dump s = map_of
     [(''full_name'', Str (s_full_name s)),
      (''email'', Str (s_email s)),
      (''phone'', opt_str (s_phone s)),
      (''school_name'', Str (s_school_name s)),
      (''class_grade'', opt_str (s_class_grade s)),
      (''address'', opt_str (s_address s)),
      (''country'', opt_str (s_country s)),
      (''city'', opt_str (s_city s)),
      (''location'', (case s_location s of None \<Rightarrow> Null | Some l \<Rightarrow> Dict l)),
      (''languages'', StrList (s_languages s)),
      (''trust_score'', Num (s_trust_score s)),
      (''kyc_status'', Str (student_kyc_str (s_kyc_status s))),
      (''created_at'', (case s_created_at s of None \<Rightarrow> Null | Some t \<Rightarrow> Time t))]"

text \<open>The bound pydantic checks on \<open>trust_score\<close> (\<open>ge=0, le=100\<close>).\<close>

definition Student_valid :: "Student \<Rightarrow> bool" where
  "Student_valid s = (0 \<le> s_trust_score s \<and> s_trust_score s \<le> 100)"

record KYCDocument =
  k_student_id :: string
  k_id_proof_url :: string
  k_student_id_card_url :: string
  k_school_letter_url :: "string option"
  k_selfie_url :: string
  k_status :: kyc_state
  k_remarks :: "string option"

definition KYCDocument_dump :: "KYCDocument \<Rightarrow> doc" where
  "KYCDocument_dump k = map_of
     [(''student_id'', Str (k_student_id k)),
      (''id_proof_url'', Str (k_id_proof_url k)),
      (''student_id_card_url'', Str (k_student_id_card_url k)),
      (''school_letter_url'', opt_str (k_school_letter_url k)),
      (''selfie_url'', Str (k_selfie_url k)),
      (''status'', Str (kyc_state_str (k_status k))),
      (''remarks'', opt_str (k_remarks k))]"

record ProofSubmission =
  p_student_id :: string
  p_title :: string
  p_description :: "string option"
  p_amount :: "real option"
  p_currency :: "string option"
  p_files :: "string list"
  p_reviewed :: bool

definition ProofSubmission_dump :: "ProofSubmission \<Rightarrow> doc" where
  "ProofSubmission_dump pr = map_of
     [(''student_id'', Str (p_student_id pr)),
      (''title'', Str (p_title pr)),
      (''description'', opt_str (p_description pr)),
      (''amount'', opt_num (p_amount pr)),
      (''currency'', opt_str (p_currency pr)),
      (''files'', StrList (p_files pr)),
      (''reviewed'', Bool (p_reviewed pr))]"

record Donation =
  d_donor_name :: "string option"
  d_donor_email :: "string option"
  d_student_id :: "string option"
  d_scholarship :: scholarship
  d_amount :: real
  d_currency :: string
  d_gateway :: gateway
  d_status :: donation_status
  d_payment_reference :: "string option"
  d_blockchain_tx :: "string option"
  d_country :: "string option"

definition Donation_dump :: "Donation \<Rightarrow> doc" where
  "Donation_dump dn = map_of
     [(''donor_name'', opt_str (d_donor_name dn)),
      (''donor_email'', opt_str (d_donor_email dn)),
      (''student_id'', opt_str (d_student_id dn)),
      (''scholarship'', Str (scholarship_str (d_scholarship dn))),
      (''amount'', Num (d_amount dn)),
      (''currency'', Str (d_currency dn)),
      (''gateway'', Str (gateway_str (d_gateway dn))),
      (''status'', Str (donation_status_str (d_status dn))),
      (''payment_reference'', opt_str (d_payment_reference dn)),
      (''blockchain_tx'', opt_str (d_blockchain_tx dn)),
      (''country'', opt_str (d_country dn))]"

text \<open>The two models declared in src/main.py.\<close>

record PaymentIntentResponse =
  r_reference :: string
  r_redirect_url :: "string option"
  r_status :: string

record WebhookUpdate =
  w_reference :: string
  w_status :: string
  w_gateway_tx :: "string option"
  w_blockchain_tx :: "string option"

text \<open>\<open>model_dump(exclude_none=True)\<close>: a field that is \<open>None\<close> is left out.\<close>

definition WebhookUpdate_dump_exclude_none :: "WebhookUpdate \<Rightarrow> doc" where
  "WebhookUpdate_dump_exclude_none u = map_of
     ([(''reference'', Str (w_reference u)), (''status'', Str (w_status u))]
      @ (case w_gateway_tx u of None \<Rightarrow> [] | Some g \<Rightarrow> [(''gateway_tx'', Str g)])
      @ (case w_blockchain_tx u of None \<Rightarrow> [] | Some b \<Rightarrow> [(''blockchain_tx'', Str b)]))"

section \<open>The handlers of src/main.py\<close>

text \<open>
  Modelled from the spec: \<open>create_document\<close> of the module \<open>database\<close> that
  src/main.py imports, which is not among the sources. Section 4.1 of the spec: it
  persists a new record, stamping \<open>created_at\<close> and \<open>updated_at\<close> with the current
  time, and returns the newly assigned identifier; it fails with \<open>StoreUnavailable\<close>
  if the store has no live connection. Whether the store has a live connection
  (\<open>live\<close>), the clock's reading \<open>now\<close> and the identifier \<open>new_id\<close> that the
  driver generates are arguments.
\<close>

definition create_document ::
  "bool \<Rightarrow> database \<Rightarrow> string \<Rightarrow> doc \<Rightarrow> nat \<Rightarrow> string \<Rightarrow> error + string \<times> database"
  where
  "create_document live db collection_name data now new_id =
     (if \<not> live then Inl StoreUnavailable
      else
        (let data = data ++ [''created_at'' \<mapsto> Time now, ''updated_at'' \<mapsto> Time now]
         in Inr (new_id, db(collection_name := insert_one (db collection_name) data new_id))))"

text \<open>
  A handler returns its result, or the exception it raises, together with the database
  as it leaves it: what was written before an exception stays written. The handlers
  that create a document take \<open>live\<close> for that call; the reads and updates that
  the handlers make on \<open>db\<close> themselves are those of a live store.
\<close>

definition create_student ::
  "bool \<Rightarrow> database \<Rightarrow> Student \<Rightarrow> nat \<Rightarrow> string \<Rightarrow> (error + string) \<times> database" where
  "create_student live db student now new_id =
     (let data = Student_dump student
      in case create_document live db ''student'' data now new_id of
           Inl e \<Rightarrow> (Inl e, db)
         | Inr (id', db1) \<Rightarrow>
             (case ObjectId id' of
                Inl e \<Rightarrow> (Inl e, db1)
              | Inr i \<Rightarrow>
                  (Inr id',
                   db1(''student'' :=
                     update_one (db1 ''student'') (Fields [(''_id'', Eq (Oid i))])
                       [''trust_score'' \<mapsto> Num 0]))))"

definition submit_kyc ::
  "bool \<Rightarrow> database \<Rightarrow> KYCDocument \<Rightarrow> nat \<Rightarrow> string \<Rightarrow> (error + string \<times> real) \<times> database"
  where
  "submit_kyc live db payload now new_id =
     (let existing = find_one (db ''kycdocument'')
                       (Fields [(''student_id'', Eq (Str (k_student_id payload)))])
      in case (case existing of
                 Some e \<Rightarrow>
                   Inr (fst e,
                        db(''kycdocument'' :=
                          update_one (db ''kycdocument'') (Fields [(''_id'', Eq (Oid (fst e)))])
                            (KYCDocument_dump payload)))
               | None \<Rightarrow>
                   create_document live db ''kycdocument'' (KYCDocument_dump payload)
                     now new_id) of
           Inl e \<Rightarrow> (Inl e, db)
         | Inr (kyc_id, db1) \<Rightarrow>
             (case oid (k_student_id payload) of
                Inl e \<Rightarrow> (Inl e, db1)
              | Inr sid \<Rightarrow>
                  (let db2 = db1(''student'' :=
                         update_one (db1 ''student'') (Fields [(''_id'', Eq (Oid sid))])
                           [''kyc_status'' \<mapsto> Str (kyc_state_str (k_status payload))])
                   in case compute_trust_score db2 (k_student_id payload) of
                        Inl e \<Rightarrow> (Inl e, db2)
                      | Inr ts \<Rightarrow>
                          (case oid (k_student_id payload) of
                             Inl e \<Rightarrow> (Inl e, db2)
                           | Inr sid' \<Rightarrow>
                               (Inr (kyc_id, ts),
                                db2(''student'' :=
                                  update_one (db2 ''student'') (Fields [(''_id'', Eq (Oid sid'))])
                                    [''trust_score'' \<mapsto> Num ts]))))))"

text \<open>
  \<open>submit_proof\<close>: the call of \<open>create_document\<close> is before the \<open>try\<close>; the
  recomputation and the write of the score are inside it, and any exception there
  leaves \<open>ts = None\<close>.
\<close>

definition submit_proof ::
  "bool \<Rightarrow> database \<Rightarrow> ProofSubmission \<Rightarrow> nat \<Rightarrow> string
     \<Rightarrow> (error + string \<times> real option) \<times> database"
  where
  "submit_proof live db proof now new_id =
     (case create_document live db ''proofsubmission'' (ProofSubmission_dump proof)
             now new_id of
        Inl e \<Rightarrow> (Inl e, db)
      | Inr (id', db1) \<Rightarrow>
          (case compute_trust_score db1 (p_student_id proof) of
             Inl e \<Rightarrow> (Inr (id', None), db1)
           | Inr ts \<Rightarrow>
               (case oid (p_student_id proof) of
                  Inl e \<Rightarrow> (Inr (id', None), db1)
                | Inr sid \<Rightarrow>
                    (Inr (id', Some ts),
                     db1(''student'' :=
                       update_one (db1 ''student'') (Fields [(''_id'', Eq (Oid sid))])
                         [''trust_score'' \<mapsto> Num ts])))))"

definition initiate_donation ::
  "bool \<Rightarrow> database \<Rightarrow> Donation \<Rightarrow> nat \<Rightarrow> string
     \<Rightarrow> (error + PaymentIntentResponse) \<times> database" where
  "initiate_donation live db donation now new_id =
     (let amt = d_amount donation in
      if d_scholarship donation = Micro \<and> d_currency donation = ''INR''
         \<and> \<not> (10 \<le> amt \<and> amt \<le> 5000)
      then (Inl (HTTPException 400 Micro_range), db)
      else if d_scholarship donation = Big \<and> d_currency donation = ''INR''
         \<and> \<not> (10000 \<le> amt \<and> amt \<le> 1000000)
      then (Inl (HTTPException 400 Big_range), db)
      else
        (case create_document live db ''donation'' (Donation_dump donation) now new_id of
           Inl e \<Rightarrow> (Inl e, db)
         | Inr (donation_id, db1) \<Rightarrow>
             (let payment_reference =
                    ''EDC-'' @ gateway_str (d_gateway donation) @ ''-'' @ donation_id;
                  redirect_url = None;
                  status = ''created''
              in case oid donation_id of
                   Inl e \<Rightarrow> (Inl e, db1)
                 | Inr i \<Rightarrow>
                     (Inr \<lparr>r_reference = payment_reference, r_redirect_url = redirect_url,
                            r_status = status\<rparr>,
                      db1(''donation'' :=
                        update_one (db1 ''donation'') (Fields [(''_id'', Eq (Oid i))])
                          [''payment_reference'' \<mapsto> Str payment_reference,
                           ''status'' \<mapsto> Str status])))))"

definition donation_webhook :: "database \<Rightarrow> WebhookUpdate \<Rightarrow> (error + bool) \<times> database" where
  "donation_webhook db update =
     (case find_one (db ''donation'')
             (Fields [(''payment_reference'', Eq (Str (w_reference update)))]) of
        None \<Rightarrow> (Inl (HTTPException 404 Donation_not_found), db)
      | Some d \<Rightarrow>
          (Inr True,
           db(''donation'' :=
             update_one (db ''donation'') (Fields [(''_id'', Eq (Oid (fst d)))])
               (WebhookUpdate_dump_exclude_none update))))"


section \<open>The second implementation: src/backend\<close>

text \<open>
  src/backend holds an earlier, simpler implementation of the same endpoints, with its
  own schemas (plain strings where src/schemas.py has \<open>Literal\<close> types) and its own
  store adapter. Its names carry the prefix \<open>backend\<close>.
\<close>

definition MICRO_MIN_INR :: real where "MICRO_MIN_INR = 10"
definition MICRO_MAX_INR :: real where "MICRO_MAX_INR = 5000"
definition BIG_MIN_INR :: real where "BIG_MIN_INR = 10000"
definition BIG_MAX_INR :: real where "BIG_MAX_INR = 1000000"

record backend_KYCDocument =
  bk_student_id :: string
  bk_id_proof_url :: string
  bk_student_id_card_url :: string
  bk_school_letter_url :: "string option"
  bk_selfie_url :: string
  bk_status :: string

definition backend_KYCDocument_dump :: "backend_KYCDocument \<Rightarrow> doc" where
  "backend_KYCDocument_dump k = map_of
     [(''student_id'', Str (bk_student_id k)),
      (''id_proof_url'', Str (bk_id_proof_url k)),
      (''student_id_card_url'', Str (bk_student_id_card_url k)),
      (''school_letter_url'', opt_str (bk_school_letter_url k)),
      (''selfie_url'', Str (bk_selfie_url k)),
      (''status'', Str (bk_status k))]"

record backend_Donation =
  bd_student_id :: "string option"
  bd_scholarship :: string
  bd_amount :: real
  bd_currency :: string
  bd_gateway :: string

definition backend_Donation_dump :: "backend_Donation \<Rightarrow> doc" where
  "backend_Donation_dump dn = map_of
     [(''student_id'', opt_str (bd_student_id dn)),
      (''scholarship'', Str (bd_scholarship dn)),
      (''amount'', Num (bd_amount dn)),
      (''currency'', Str (bd_currency dn)),
      (''gateway'', Str (bd_gateway dn))]"

text \<open>\<open>WebhookPayload\<close>; its \<open>data\<close>, a free dictionary that no code reads, is left out.\<close>

record backend_WebhookPayload =
  bw_reference :: string
  bw_event :: string
  bw_signature :: "string option"

text \<open>
  src/backend/database.py. Its \<open>_db\<close> is the database, or \<open>None\<close> when the client
  could not be made: \<open>initialized\<close> says which, and \<open>db\<close> is the database's content.
\<close>

definition backend_create_document ::
  "bool \<Rightarrow> database \<Rightarrow> string \<Rightarrow> doc \<Rightarrow> nat \<Rightarrow> string \<Rightarrow> error + string \<times> database"
  where
  "backend_create_document initialized db collection_name data now new_id =
     (if \<not> initialized then Inl RuntimeError
      else
        (let data = data ++ [''created_at'' \<mapsto> Time now, ''updated_at'' \<mapsto> Time now]
         in Inr (new_id, db(collection_name := insert_one (db collection_name) data new_id))))"


text \<open>The handlers of src/backend/main.py.\<close>

definition backend_submit_kyc ::
  "bool \<Rightarrow> database \<Rightarrow> backend_KYCDocument \<Rightarrow> nat \<Rightarrow> string \<Rightarrow> (error + doc) \<times> database"
  where
  "backend_submit_kyc initialized db doc now new_id =
     (case backend_create_document initialized db ''kycdocument'' (backend_KYCDocument_dump doc)
             now new_id of
        Inl e \<Rightarrow> (Inl e, db)
      | Inr (did, db1) \<Rightarrow> (Inr ((backend_KYCDocument_dump doc)(''id'' \<mapsto> Str did)), db1))"

text \<open>The result of \<open>initiate_donation\<close> is the pair of its \<open>status\<close> and \<open>reference\<close>.\<close>

definition backend_initiate_donation ::
  "bool \<Rightarrow> database \<Rightarrow> backend_Donation \<Rightarrow> nat \<Rightarrow> string
     \<Rightarrow> (error + string \<times> string) \<times> database"
  where
  "backend_initiate_donation initialized db donation now new_id =
     (if py_upper (bd_currency donation) = ''INR''
         \<and> bd_scholarship donation = ''micro''
         \<and> \<not> (MICRO_MIN_INR \<le> bd_amount donation \<and> bd_amount donation \<le> MICRO_MAX_INR)
      then (Inl (HTTPException 400 Amount_out_of_micro_range), db)
      else if py_upper (bd_currency donation) = ''INR''
         \<and> bd_scholarship donation = ''big''
         \<and> \<not> (BIG_MIN_INR \<le> bd_amount donation \<and> bd_amount donation \<le> BIG_MAX_INR)
      then (Inl (HTTPException 400 Amount_out_of_big_range), db)
      else
        (case backend_create_document initialized db ''donation'' (backend_Donation_dump donation)
                now new_id of
           Inl e \<Rightarrow> (Inl e, db)
         | Inr (ref, db1) \<Rightarrow> (Inr (''created'', ref), db1)))"

text \<open>The webhook only echoes the reference: it reads and writes nothing.\<close>

definition backend_donation_webhook ::
  "database \<Rightarrow> backend_WebhookPayload \<Rightarrow> (error + string \<times> string) \<times> database" where
  "backend_donation_webhook db payload = (Inr (''received'', bw_reference payload), db)"


text \<open>\<open>trust\<close>, the placeholder score of this implementation; the score is 0 when
  there is no database.\<close>

definition backend_trust :: "bool \<Rightarrow> database \<Rightarrow> string \<Rightarrow> string \<times> real" where
  "backend_trust initialized db student_id =
     (let score = 0;
          score =
            (if initialized
             then
               (let proofs = count_documents (db ''proofsubmission'')
                               (Fields [(''student_id'', Eq (Str student_id))]);
                    kycs = count_documents (db ''kycdocument'')
                             (Fields [(''student_id'', Eq (Str student_id)),
                                      (''status'', Eq (Str ''verified''))])
                in min 100 (40 + proofs * 10 + kycs * 30))
             else score)
      in (student_id, real score))"

section \<open>The specification's statements, and example data\<close>

text \<open>
  A student is a document of the collection \<open>student\<close>, and is known by its \<open>_id\<close>. A
  stored KYC record or proof is a record of the student that its \<open>student_id\<close> names:
  the student whose \<open>_id\<close> is the ObjectId that string denotes.
\<close>

definition record_of_student :: "string \<Rightarrow> stored \<Rightarrow> bool" where
  "record_of_student sid sd =
     (case snd sd ''student_id'' of Some (Str s) \<Rightarrow> oid s = Inr sid | _ \<Rightarrow> False)"

text \<open>
  The trust score of the student \<open>sid\<close> as the specification states it: 10, plus 30
  when a KYC record exists for the student, plus a further 30 when that record is
  verified or 10 when it is pending, plus 5 for each proof of the student up to 30 in
  all, clamped to the range 0 to 100. (Of several KYC records, the first stored one is
  taken.)
\<close>

definition claimed_trust_score :: "database \<Rightarrow> string \<Rightarrow> real" where
  "claimed_trust_score db sid =
     (let kyc = List.find (record_of_student sid) (db ''kycdocument'');
          proofs = length (filter (record_of_student sid) (db ''proofsubmission''))
      in max 0 (min 100
           (10
            + (case kyc of
                 None \<Rightarrow> 0
               | Some k \<Rightarrow>
                   30 + (if snd k ''status'' = Some (Str ''verified'') then 30
                         else if snd k ''status'' = Some (Str ''pending'') then 10
                         else 0))
            + real (min 30 (5 * proofs)))))"

text \<open>
  Two \<open>student_id\<close> strings name the same student when they are equal, or denote the
  same ObjectId. \<open>kyc_records db student_id\<close> is the number of stored KYC records whose
  \<open>student_id\<close> names the student that the string \<open>student_id\<close> names;
  \<open>kyc_keyed db k\<close> is the number of those whose \<open>student_id\<close> is the very string
  \<open>k\<close>, which is what the handlers compare.
\<close>

definition same_student :: "string \<Rightarrow> string \<Rightarrow> bool" where
  "same_student a b = (a = b \<or> (case oid a of Inr i \<Rightarrow> oid b = Inr i | Inl _ \<Rightarrow> False))"

definition kyc_of_student :: "string \<Rightarrow> stored \<Rightarrow> bool" where
  "kyc_of_student student_id sd =
     (case snd sd ''student_id'' of Some (Str s) \<Rightarrow> same_student student_id s | _ \<Rightarrow> False)"

definition kyc_records :: "database \<Rightarrow> string \<Rightarrow> nat" where
  "kyc_records db student_id = length (filter (kyc_of_student student_id) (db ''kycdocument''))"

definition kyc_keyed :: "database \<Rightarrow> string \<Rightarrow> nat" where
  "kyc_keyed db k =
     count_documents (db ''kycdocument'') (Fields [(''student_id'', Eq (Str k))])"

text \<open>
  A \<open>student_id\<close> string is canonical when, if it denotes an ObjectId, it is the
  string of that ObjectId: 24 hexadecimal digits with the letters in lower case. A
  collection has canonical keys when the \<open>student_id\<close> of each of its records is.
\<close>

definition canonical :: "string \<Rightarrow> bool" where
  "canonical s = (case oid s of Inr i \<Rightarrow> i = s | Inl _ \<Rightarrow> True)"

definition canonical_keys :: "collection \<Rightarrow> bool" where
  "canonical_keys c =
     list_all (\<lambda>sd. case snd sd ''student_id'' of Some (Str s) \<Rightarrow> canonical s | _ \<Rightarrow> True) c"

text \<open>
  The KYC handler of src/main.py run on a sequence of requests, each with the state of
  the connection, the clock's reading and the identifier the driver would give a new
  document.
\<close>

fun submit_kyc_all :: "database \<Rightarrow> (bool \<times> KYCDocument \<times> nat \<times> string) list \<Rightarrow> database" where
  "submit_kyc_all db [] = db"
| "submit_kyc_all db ((live, payload, now, new_id) # requests) =
     submit_kyc_all (snd (submit_kyc live db payload now new_id)) requests"

text \<open>A store with one student, her verified KYC record and one proof; and her
  identifier written with the letters in upper case.\<close>

definition example_id :: string where
  "example_id = ''65a1b2c3d4e5f60718293a4b''"

definition upper_case_id :: string where
  "upper_case_id = ''65A1B2C3D4E5F60718293A4B''"

definition example_db :: database where
  "example_db = (\<lambda>_. [])
     (''student'' := [(example_id, [''full_name'' \<mapsto> Str ''Asha Rao''])],
      ''kycdocument'' :=
        [(''65a1b2c3d4e5f60718293a4c'',
          [''student_id'' \<mapsto> Str example_id, ''status'' \<mapsto> Str ''verified''])],
      ''proofsubmission'' :=
        [(''65a1b2c3d4e5f60718293a4d'',
          [''student_id'' \<mapsto> Str example_id, ''title'' \<mapsto> Str ''Fee receipt''])],
      ''donation'' :=
        [(''65a1b2c3d4e5f60718293a4e'',
          [''payment_reference'' \<mapsto> Str ''EDC-upi-65a1b2c3d4e5f60718293a4e'',
           ''status'' \<mapsto> Str ''created''])])"

text \<open>A webhook update, and a webhook payload, for a reference that no donation has.\<close>

definition unknown_update :: WebhookUpdate where
  "unknown_update = \<lparr>w_reference = ''EDC-upi-0'', w_status = ''succeeded'',
     w_gateway_tx = Some ''tx-1'', w_blockchain_tx = None\<rparr>"

definition unknown_payload :: backend_WebhookPayload where
  "unknown_payload = \<lparr>bw_reference = ''EDC-upi-0'', bw_event = ''paid'', bw_signature = None\<rparr>"

text \<open>The bounds of the two scholarship tiers, as the specification states them.\<close>

fun within_tier :: "scholarship \<Rightarrow> real \<Rightarrow> bool" where
  "within_tier Micro a = (10 \<le> a \<and> a \<le> 5000)"
| "within_tier Big a = (10000 \<le> a \<and> a \<le> 1000000)"

text \<open>The tier that a scholarship string of src/backend names, if any.\<close>

definition tier_of :: "string \<Rightarrow> scholarship option" where
  "tier_of s = (if s = ''micro'' then Some Micro else if s = ''big'' then Some Big else None)"

text \<open>Example requests: a micro donation of 5 in the currency written \<open>inr\<close>, to both
  implementations, and a student who asks for a trust score of 88.\<close>

definition example_donation :: Donation where
  "example_donation = \<lparr>d_donor_name = None, d_donor_email = None, d_student_id = None,
     d_scholarship = Micro, d_amount = 5, d_currency = ''inr'', d_gateway = Upi,
     d_status = Created, d_payment_reference = None, d_blockchain_tx = None,
     d_country = None\<rparr>"

definition example_backend_donation :: backend_Donation where
  "example_backend_donation = \<lparr>bd_student_id = None, bd_scholarship = ''micro'',
     bd_amount = 5, bd_currency = ''inr'', bd_gateway = ''upi''\<rparr>"

definition example_student :: Student where
  "example_student = \<lparr>s_full_name = ''Ravi Kumar'', s_email = ''ravi@example.org'',
     s_phone = None, s_school_name = ''Hill School'', s_class_grade = None, s_address = None,
     s_country = None, s_city = None, s_location = None, s_languages = [],
     s_trust_score = 88, s_kyc_status = Not_submitted, s_created_at = None\<rparr>"

definition fresh_id :: string where
  "fresh_id = ''65a1b2c3d4e5f60718293a50''"

text \<open>Micro donations in INR at the upper bound, and just above it.\<close>

definition inr_5000 :: Donation where
  "inr_5000 = example_donation\<lparr>d_currency := ''INR'', d_amount := 5000\<rparr>"

definition inr_5001 :: Donation where
  "inr_5001 = example_donation\<lparr>d_currency := ''INR'', d_amount := 5001\<rparr>"

text \<open>
  KYC submissions: one for the example student, who has a record, and two for a student
  who has none; and a submission to src/backend.
\<close>

definition example_kyc :: KYCDocument where
  "example_kyc = \<lparr>k_student_id = example_id, k_id_proof_url = ''https://files/id.png'',
     k_student_id_card_url = ''https://files/card.png'', k_school_letter_url = None,
     k_selfie_url = ''https://files/selfie.png'', k_status = KYC_rejected,
     k_remarks = Some ''blurred''\<rparr>"

definition example_requests :: "(bool \<times> KYCDocument \<times> nat \<times> string) list" where
  "example_requests =
     [(True, example_kyc, 1, fresh_id),
      (True, example_kyc\<lparr>k_student_id := ''65a1b2c3d4e5f60718293a77''\<rparr>, 2,
       ''65a1b2c3d4e5f60718293a51''),
      (True, example_kyc\<lparr>k_student_id := ''65a1b2c3d4e5f60718293a77'', k_status := KYC_verified\<rparr>,
       3, ''65a1b2c3d4e5f60718293a52'')]"

definition example_backend_kyc :: backend_KYCDocument where
  "example_backend_kyc = \<lparr>bk_student_id = example_id, bk_id_proof_url = ''https://files/id.png'',
     bk_student_id_card_url = ''https://files/card.png'', bk_school_letter_url = None,
     bk_selfie_url = ''https://files/selfie.png'', bk_status = ''pending''\<rparr>"

definition empty_db :: database where
  "empty_db = (\<lambda>_. [])"







text \<open>A proof for a student identifier that is no ObjectId.\<close>

definition example_proof :: ProofSubmission where
  "example_proof = \<lparr>p_student_id = ''nobody'', p_title = ''Books'', p_description = None,
     p_amount = Some 450, p_currency = Some ''INR'', p_files = [], p_reviewed = False\<rparr>"

section \<open>Properties\<close>

subsection \<open>Matching and finding\<close>

lemma matches_id [simp]: "matches (Fields [(''_id'', Eq (Oid i))]) sd = (fst sd = i)"
  by (simp add: field_equals_def field_def)

lemma matches_str_field:
  "k \<noteq> ''_id'' \<Longrightarrow> matches (Fields [(k, Eq (Str v))]) sd = (snd sd k = Some (Str v))"
  by (simp add: field_equals_def field_def)

declare matches.simps [simp del]

lemma find_one_None_iff: "find_one c q = None \<longleftrightarrow> (\<forall>sd \<in> set c. \<not> matches q sd)"
  by (auto simp: find_one_def find_None_iff)

lemma find_one_SomeD: "find_one c q = Some sd \<Longrightarrow> sd \<in> set c \<and> matches q sd"
  by (auto simp: find_one_def find_Some_iff)

lemma find_one_id_exists:
  assumes "i \<in> fst ` set c"
  shows "\<exists>d. find_one c (Fields [(''_id'', Eq (Oid i))]) = Some (i, d)"
proof -
  from assms have "find_one c (Fields [(''_id'', Eq (Oid i))]) \<noteq> None"
    by (auto simp: find_one_None_iff)
  then obtain sd where sd: "find_one c (Fields [(''_id'', Eq (Oid i))]) = Some sd"
    by auto
  from find_one_SomeD[OF sd] have "fst sd = i" by simp
  with sd show ?thesis by (cases sd) auto
qed

lemma find_same: "\<forall>x \<in> set xs. P x = Q x \<Longrightarrow> List.find P xs = List.find Q xs"
  by (induction xs) auto

lemma filter_same: "\<forall>x \<in> set xs. P x = Q x \<Longrightarrow> filter P xs = filter Q xs"
  by (induction xs) auto

lemma length_filter_mono:
  "\<forall>x \<in> set xs. P x \<longrightarrow> Q x \<Longrightarrow> length (filter P xs) \<le> length (filter Q xs)"
  by (induction xs) auto

subsection \<open>Object identifiers\<close>

lemma ObjectId_example_id: "ObjectId example_id = Inr example_id"
  by (simp add: ObjectId_def example_id_def hexdigit_def lower_hex_def isspace_def)

lemma oid_ObjectId: "ObjectId s = Inr i \<Longrightarrow> oid s = Inr i"
  by (simp add: oid_def)

lemma oid_example_id: "oid example_id = Inr example_id"
  by (rule oid_ObjectId[OF ObjectId_example_id])

lemma ObjectId_fresh_id: "ObjectId fresh_id = Inr fresh_id"
  by (simp add: ObjectId_def fresh_id_def hexdigit_def lower_hex_def isspace_def)

text \<open>The same identifier with its letters in upper case denotes the same ObjectId.\<close>

lemma oid_upper_case_id: "oid upper_case_id = Inr example_id"
  by (simp add: oid_def ObjectId_def upper_case_id_def example_id_def hexdigit_def lower_hex_def
        isspace_def)

text \<open>Whitespace between the pairs of digits is skipped, and the ObjectId is shorter.\<close>

lemma ObjectId_with_whitespace:
  "ObjectId ''65a1b2c3 d4e5f607 182934'' = Inr ''65a1b2c3d4e5f607182934''"
  by (simp add: ObjectId_def hexdigit_def lower_hex_def isspace_def)

subsection \<open>The trust score\<close>

lemma compute_trust_score_existing:
  assumes "oid student_id = Inr sid" and "sid \<in> fst ` set (db ''student'')"
    and k: "\<forall>sd \<in> set (db ''kycdocument'').
              record_of_student sid sd \<longleftrightarrow> snd sd ''student_id'' = Some (Str student_id)"
    and p: "\<forall>sd \<in> set (db ''proofsubmission'').
              record_of_student sid sd \<longleftrightarrow> snd sd ''student_id'' = Some (Str student_id)"
  shows "compute_trust_score db student_id = Inr (claimed_trust_score db sid)"
proof -
  let ?q = "Fields [(''student_id'', Eq (Str student_id))]"
  from find_one_id_exists[OF assms(2)] obtain d where
    s: "find_one (db ''student'') (Fields [(''_id'', Eq (Oid sid))]) = Some (sid, d)" by blast
  have kyc: "find_one (db ''kycdocument'') ?q
               = List.find (record_of_student sid) (db ''kycdocument'')"
    unfolding find_one_def using k by (intro find_same) (simp add: matches_str_field)
  have proofs: "count_documents (db ''proofsubmission'') ?q
                  = length (filter (record_of_student sid) (db ''proofsubmission''))"
    unfolding count_documents_def using p
    by (intro arg_cong[of _ _ length] filter_same) (simp add: matches_str_field)
  show ?thesis using assms(1) s
    by (simp add: compute_trust_score_def claimed_trust_score_def score_of_def Let_def field_def
          mult.commute kyc proofs split: option.splits)
qed

lemma backend_trust_formula:
  "backend_trust True db student_id =
     (student_id,
      real (min 100
        (40
         + 10 * count_documents (db ''proofsubmission'')
                  (Fields [(''student_id'', Eq (Str student_id))])
         + 30 * count_documents (db ''kycdocument'')
                  (Fields [(''student_id'', Eq (Str student_id)),
                           (''status'', Eq (Str ''verified''))]))))"
  by (simp add: backend_trust_def Let_def mult.commute)

lemma example_db_scores:
  "claimed_trust_score example_db example_id = 75"
  "snd (backend_trust True example_db example_id) = 80"
   apply (simp add: claimed_trust_score_def example_db_def record_of_student_def oid_example_id)
  apply (simp add: backend_trust_def example_db_def example_id_def
      count_documents_def matches.simps field_equals_def field_def)
  done

text \<open>
  C1, as amended. In src/main.py, for a request whose \<open>student_id\<close> denotes a student
  that exists, \<open>compute_trust_score\<close> returns exactly the score the specification
  states, provided the stored KYC records and proofs of that student are those whose
  \<open>student_id\<close> is the request's string, as they are when every identifier is written
  in its canonical form. The placeholder \<open>trust\<close> of src/backend/main.py does not look
  the student up and returns \<open>min(100, 40 + 10 * proofs + 30 * verified KYC records)\<close>,
  the records counted by the request's string; without a database it returns 0.
\<close>

theorem trust_score_of_both_implementations:
  "(oid student_id = Inr sid \<and> sid \<in> fst ` set (db ''student'')
      \<and> (\<forall>sd \<in> set (db ''kycdocument'').
            record_of_student sid sd \<longleftrightarrow> snd sd ''student_id'' = Some (Str student_id))
      \<and> (\<forall>sd \<in> set (db ''proofsubmission'').
            record_of_student sid sd \<longleftrightarrow> snd sd ''student_id'' = Some (Str student_id))
      \<longrightarrow> compute_trust_score db student_id = Inr (claimed_trust_score db sid))
   \<and> backend_trust True db student_id =
       (student_id,
        real (min 100
          (40
           + 10 * count_documents (db ''proofsubmission'')
                    (Fields [(''student_id'', Eq (Str student_id))])
           + 30 * count_documents (db ''kycdocument'')
                    (Fields [(''student_id'', Eq (Str student_id)),
                             (''status'', Eq (Str ''verified''))]))))
   \<and> backend_trust False db student_id = (student_id, 0)"
proof -
  have A: "oid student_id = Inr sid \<and> sid \<in> fst ` set (db ''student'')
      \<and> (\<forall>sd \<in> set (db ''kycdocument'').
            record_of_student sid sd \<longleftrightarrow> snd sd ''student_id'' = Some (Str student_id))
      \<and> (\<forall>sd \<in> set (db ''proofsubmission'').
            record_of_student sid sd \<longleftrightarrow> snd sd ''student_id'' = Some (Str student_id))
      \<longrightarrow> compute_trust_score db student_id = Inr (claimed_trust_score db sid)"
    using compute_trust_score_existing[of student_id sid db] by blast
  have B: "backend_trust False db student_id = (student_id, 0)"
    by (simp add: backend_trust_def)
  show ?thesis by (intro conjI A B backend_trust_formula)
qed

theorem trust_score_of_both_implementations_witness:
  "oid example_id = Inr example_id \<and> example_id \<in> fst ` set (example_db ''student'')
   \<and> compute_trust_score example_db example_id = Inr 75"
proof -
  have a: "oid example_id = Inr example_id" by (rule oid_example_id)
  have b: "example_id \<in> fst ` set (example_db ''student'')"
    by (simp add: example_db_def)
  have c: "\<forall>sd \<in> set (example_db ''kycdocument'').
            record_of_student example_id sd \<longleftrightarrow> snd sd ''student_id'' = Some (Str example_id)"
    by (simp add: example_db_def record_of_student_def oid_example_id)
  have d: "\<forall>sd \<in> set (example_db ''proofsubmission'').
            record_of_student example_id sd \<longleftrightarrow> snd sd ''student_id'' = Some (Str example_id)"
    by (simp add: example_db_def record_of_student_def oid_example_id)
  from trust_score_of_both_implementations[of example_id example_id example_db] a b c d
  have "compute_trust_score example_db example_id
          = Inr (claimed_trust_score example_db example_id)" by blast
  with a b show ?thesis by (simp add: example_db_scores)
qed

text \<open>
  The claim as stated fails on src/backend/main.py: for the example student the
  specification's score is 75 and \<open>trust\<close> returns 80.
\<close>

theorem backend_trust_counterexample:
  "oid example_id = Inr example_id \<and> example_id \<in> fst ` set (example_db ''student'')
   \<and> snd (backend_trust True example_db example_id) \<noteq> claimed_trust_score example_db example_id"
proof -
  have "example_id \<in> fst ` set (example_db ''student'')"
    by (simp add: example_db_def)
  then show ?thesis by (simp add: oid_example_id example_db_scores)
qed

text \<open>
  \<open>compute_trust_score\<close> finds the student by the ObjectId that the request's string
  denotes, and the KYC record and the proofs by the string itself (lines 32 to 38 of
  src/main.py). Asked for the example student with her identifier in upper case, it
  finds her, and neither her KYC record nor her proof: it returns 10, and her score is 75.
\<close>

lemma compute_trust_score_upper_case_id:
  "oid upper_case_id = Inr example_id \<and> example_id \<in> fst ` set (example_db ''student'')
   \<and> compute_trust_score example_db upper_case_id = Inr 10
   \<and> claimed_trust_score example_db example_id = 75"
proof -
  have "compute_trust_score example_db upper_case_id = Inr 10"
    by (simp add: compute_trust_score_def oid_upper_case_id)
       (simp add: example_db_def find_one_def count_documents_def matches_str_field score_of_def
          upper_case_id_def example_id_def)
  moreover have "example_id \<in> fst ` set (example_db ''student'')"
    by (simp add: example_db_def)
  ultimately show ?thesis by (simp add: oid_upper_case_id example_db_scores)
qed

subsection \<open>Writing to a collection\<close>

lemma map_add_twice: "(m ++ p) ++ p = m ++ (p :: 'a \<rightharpoonup> 'b)"
  by (rule ext) (simp add: map_add_def split: option.splits)

lemma update_one_id_twice:
  "update_one (update_one c (Fields [(''_id'', Eq (Oid i))]) p) (Fields [(''_id'', Eq (Oid i))]) p
     = update_one c (Fields [(''_id'', Eq (Oid i))]) p"
  by (induction c) (auto simp: map_add_twice)

lemma matches_str_field_patch:
  assumes "k \<noteq> ''_id''" and "p k = None"
  shows "matches (Fields [(k, Eq (Str v))]) (i, d ++ p) = matches (Fields [(k, Eq (Str v))]) (i, d)"
  using assms by (simp add: matches_str_field map_add_def)

text \<open>A patch that leaves a field alone does not change which document a search on
  that field finds first.\<close>

lemma find_one_after_update:
  assumes "k \<noteq> ''_id''" and "p k = None"
  shows "map_option fst (find_one (update_one c q' p) (Fields [(k, Eq (Str v))]))
           = map_option fst (find_one c (Fields [(k, Eq (Str v))]))"
proof (induction c)
  case Nil
  then show ?case by simp
next
  case (Cons sd ds)
  obtain i d where sd: "sd = (i, d)" by (cases sd)
  show ?case
  proof (cases "matches q' sd")
    case True
    then show ?thesis
      using matches_str_field_patch[of k p v i d] assms
      by (simp add: find_one_def sd)
  next
    case False
    then show ?thesis using Cons.IH by (simp add: find_one_def)
  qed
qed

text \<open>With a fresh identifier, the update by \<open>_id\<close> that follows an insertion reaches the
  inserted document.\<close>

lemma update_one_inserted:
  "i \<notin> fst ` set c \<Longrightarrow>
     update_one (insert_one c d i) (Fields [(''_id'', Eq (Oid i))]) p = c @ [(i, d ++ p)]"
  by (induction c) (auto simp: insert_one_def)

subsection \<open>The webhook\<close>

lemma webhook_dump_keeps_payment_reference:
  "WebhookUpdate_dump_exclude_none u ''payment_reference'' = None"
  by (simp add: WebhookUpdate_dump_exclude_none_def split: option.splits)

lemma donation_webhook_unknown:
  assumes "\<forall>sd \<in> set (db ''donation''). snd sd ''payment_reference'' \<noteq> Some (Str (w_reference u))"
  shows "donation_webhook db u = (Inl (HTTPException 404 Donation_not_found), db)"
proof -
  have "find_one (db ''donation'') (Fields [(''payment_reference'', Eq (Str (w_reference u)))])
          = None"
    using assms by (simp add: find_one_None_iff matches_str_field)
  then show ?thesis by (simp add: donation_webhook_def)
qed

text \<open>
  C4, as amended. In src/main.py a webhook update whose reference is the
  \<open>payment_reference\<close> of no stored donation fails with HTTP 404 and leaves the
  database as it was. The webhook of src/backend/main.py looks nothing up: it answers
  \<open>received\<close> for every reference, and leaves the database as it was.
\<close>

theorem webhook_unknown_reference:
  "((\<forall>sd \<in> set (db ''donation''). snd sd ''payment_reference'' \<noteq> Some (Str (w_reference u)))
      \<longrightarrow> donation_webhook db u = (Inl (HTTPException 404 Donation_not_found), db))
   \<and> backend_donation_webhook db payload = (Inr (''received'', bw_reference payload), db)"
  using donation_webhook_unknown by (simp add: backend_donation_webhook_def)

theorem webhook_unknown_reference_witness:
  "donation_webhook example_db unknown_update
     = (Inl (HTTPException 404 Donation_not_found), example_db)"
proof -
  have "\<forall>sd \<in> set (example_db ''donation'').
          snd sd ''payment_reference'' \<noteq> Some (Str (w_reference unknown_update))"
    by (simp add: example_db_def unknown_update_def)
  with webhook_unknown_reference[of example_db unknown_update] show ?thesis by blast
qed

text \<open>
  The claim as stated fails on src/backend/main.py: no donation of the example store
  has the reference \<open>EDC-upi-0\<close>, and the webhook does not fail.
\<close>

theorem backend_webhook_counterexample:
  "find_one (example_db ''donation'')
     (Fields [(''payment_reference'', Eq (Str (bw_reference unknown_payload)))]) = None
   \<and> fst (backend_donation_webhook example_db unknown_payload) = Inr (''received'', ''EDC-upi-0'')"
  by (simp add: backend_donation_webhook_def unknown_payload_def example_db_def find_one_def
        matches_str_field)

text \<open>
  C5. Applying a webhook update a second time changes nothing: the result and the
  database after the second application are those after the first.
\<close>

theorem donation_webhook_idempotent:
  "donation_webhook (snd (donation_webhook db u)) u = donation_webhook db u"
proof (cases "find_one (db ''donation'') (Fields [(''payment_reference'', Eq (Str (w_reference u)))])")
  case None
  then show ?thesis by (simp add: donation_webhook_def)
next
  case (Some sd)
  let ?q = "Fields [(''payment_reference'', Eq (Str (w_reference u)))]"
  let ?p = "WebhookUpdate_dump_exclude_none u"
  let ?c' = "update_one (db ''donation'') (Fields [(''_id'', Eq (Oid (fst sd)))]) ?p"
  have first: "donation_webhook db u = (Inr True, db(''donation'' := ?c'))"
    using Some by (simp add: donation_webhook_def)
  have "map_option fst (find_one ?c' ?q) = Some (fst sd)"
    using find_one_after_update[of "''payment_reference''" ?p,
        OF _ webhook_dump_keeps_payment_reference] Some
    by simp
  then obtain sd' where sd': "find_one ?c' ?q = Some sd'" and same: "fst sd' = fst sd"
    by auto
  have "donation_webhook (db(''donation'' := ?c')) u
          = (Inr True, (db(''donation'' := ?c'))(''donation'' :=
               update_one ?c' (Fields [(''_id'', Eq (Oid (fst sd)))]) ?p))"
    using sd' same by (simp add: donation_webhook_def)
  then show ?thesis
    using first by (simp add: update_one_id_twice)
qed

subsection \<open>Initiating a donation\<close>

lemma initiate_donation_INR:
  assumes "oid new_id = Inr i" and "d_currency dn = ''INR''"
  shows "(\<not> isl (fst (initiate_donation True db dn now new_id)))
           \<longleftrightarrow> within_tier (d_scholarship dn) (d_amount dn)"
  using assms
  by (cases "d_scholarship dn")
     (auto simp: initiate_donation_def create_document_def Let_def)

lemma initiate_donation_out_of_range:
  assumes "d_currency dn = ''INR''" and "\<not> within_tier (d_scholarship dn) (d_amount dn)"
  shows "initiate_donation live db dn now new_id =
           (Inl (HTTPException 400
              (case d_scholarship dn of Micro \<Rightarrow> Micro_range | Big \<Rightarrow> Big_range)), db)"
  using assms
  by (cases "d_scholarship dn") (auto simp: initiate_donation_def Let_def)

lemma initiate_donation_other_currency:
  assumes "oid new_id = Inr i" and "d_currency dn \<noteq> ''INR''"
  shows "\<not> isl (fst (initiate_donation True db dn now new_id))"
  using assms by (simp add: initiate_donation_def create_document_def Let_def)

lemma backend_initiate_donation_INR:
  assumes "py_upper (bd_currency dn) = ''INR''" and "tier_of (bd_scholarship dn) = Some t"
  shows "(\<not> isl (fst (backend_initiate_donation True db dn now new_id)))
           \<longleftrightarrow> within_tier t (bd_amount dn)"
  using assms
  by (cases t)
     (auto simp: backend_initiate_donation_def backend_create_document_def Let_def tier_of_def
        MICRO_MIN_INR_def MICRO_MAX_INR_def BIG_MIN_INR_def BIG_MAX_INR_def split: if_splits)

lemma backend_initiate_donation_out_of_range:
  assumes "py_upper (bd_currency dn) = ''INR''" and "tier_of (bd_scholarship dn) = Some t"
    and "\<not> within_tier t (bd_amount dn)"
  shows "backend_initiate_donation initialized db dn now new_id =
           (Inl (HTTPException 400
              (case t of Micro \<Rightarrow> Amount_out_of_micro_range | Big \<Rightarrow> Amount_out_of_big_range)),
            db)"
  using assms
  by (cases t)
     (auto simp: backend_initiate_donation_def Let_def tier_of_def
        MICRO_MIN_INR_def MICRO_MAX_INR_def BIG_MIN_INR_def BIG_MAX_INR_def split: if_splits)

lemma backend_initiate_donation_other_currency:
  assumes "py_upper (bd_currency dn) \<noteq> ''INR''"
  shows "\<not> isl (fst (backend_initiate_donation True db dn now new_id))"
  using assms by (simp add: backend_initiate_donation_def backend_create_document_def Let_def)

lemma backend_initiate_donation_other_tier:
  assumes "tier_of (bd_scholarship dn) = None"
  shows "\<not> isl (fst (backend_initiate_donation True db dn now new_id))"
  using assms
  by (simp add: backend_initiate_donation_def backend_create_document_def Let_def tier_of_def
        split: if_splits)

lemma initiate_donation_response:
  assumes "initiate_donation live db dn now new_id = (Inr r, db')"
  shows "r_reference r = ''EDC-'' @ gateway_str (d_gateway dn) @ ''-'' @ new_id
         \<and> r_status r = ''created'' \<and> r_redirect_url r = None"
  using assms
  by (auto simp: initiate_donation_def create_document_def Let_def split: if_splits sum.splits)

lemma initiate_donation_stored:
  assumes "initiate_donation live db dn now new_id = (Inr r, db')"
    and "ObjectId new_id = Inr new_id" and "new_id \<notin> fst ` set (db ''donation'')"
  shows "\<exists>d. db' ''donation'' = db ''donation'' @ [(new_id, d)]
             \<and> d ''payment_reference'' = Some (Str (r_reference r))
             \<and> d ''status'' = Some (Str ''created'')"
  using assms
  by (auto simp: initiate_donation_def create_document_def Let_def oid_def update_one_inserted
        split: if_splits)

lemma backend_initiate_donation_response:
  assumes "backend_initiate_donation initialized db dn now new_id = (Inr (st, ref), db')"
  shows "st = ''created'' \<and> ref = new_id"
  using assms
  by (auto simp: backend_initiate_donation_def backend_create_document_def Let_def
        split: if_splits)

lemma py_upper_inr: "py_upper ''inr'' = ''INR''"
  by (simp add: upper2_def upper3_def ascii_upper_def)

text \<open>The currency written with the dotless i, followed by \<open>nr\<close>.\<close>

lemma py_upper_dotless_inr: "py_upper [CHR 0xC4, CHR 0xB1, CHR ''n'', CHR ''r''] = ''INR''"
  by (simp add: upper2_def upper3_def ascii_upper_def)

lemma example_initiations:
  "fst (initiate_donation True example_db example_donation 0 fresh_id) =
     Inr \<lparr>r_reference = ''EDC-upi-65a1b2c3d4e5f60718293a50'', r_redirect_url = None,
          r_status = ''created''\<rparr>"
  "fst (backend_initiate_donation True example_db example_backend_donation 0 fresh_id) =
     Inl (HTTPException 400 Amount_out_of_micro_range)"
  "fst (backend_initiate_donation True example_db (example_backend_donation\<lparr>bd_amount := 100\<rparr>)
          0 fresh_id) = Inr (''created'', fresh_id)"
    apply (simp add: initiate_donation_def example_donation_def create_document_def Let_def
        oid_ObjectId[OF ObjectId_fresh_id])
    apply (simp add: fresh_id_def)
   apply (simp add: backend_initiate_donation_def example_backend_donation_def
      upper2_def upper3_def ascii_upper_def MICRO_MIN_INR_def)
  apply (simp add: backend_initiate_donation_def example_backend_donation_def
      upper2_def upper3_def ascii_upper_def MICRO_MIN_INR_def MICRO_MAX_INR_def
      backend_create_document_def Let_def)
  done

text \<open>
  C2, as amended. On a live store: with the currency exactly \<open>INR\<close>, initiation
  succeeds if and only if the amount lies within the inclusive bounds of the tier
  (micro: 10 to 5000, big: 10000 to 1000000), and otherwise fails with HTTP 400 and
  writes nothing, whatever the state of the store; in src/backend/main.py this holds
  for the tiers \<open>micro\<close> and \<open>big\<close>, the only ones it checks: with any other tier
  string initiation succeeds. src/main.py checks the range for no other currency
  string. src/backend/main.py upper-cases the currency first, as \<open>str.upper\<close> does: it
  checks the range for every currency whose upper case is \<open>INR\<close>, and with any other
  currency initiation succeeds. (The identifier that the driver generates is assumed to
  be well formed.)
\<close>

theorem initiation_range_check:
  "(oid new_id = Inr i \<and> d_currency dn = ''INR'' \<longrightarrow>
      ((\<not> isl (fst (initiate_donation True db dn now new_id)))
         \<longleftrightarrow> within_tier (d_scholarship dn) (d_amount dn))
      \<and> (\<not> within_tier (d_scholarship dn) (d_amount dn) \<longrightarrow>
           initiate_donation live db dn now new_id =
             (Inl (HTTPException 400
                (case d_scholarship dn of Micro \<Rightarrow> Micro_range | Big \<Rightarrow> Big_range)), db)))
   \<and> (oid new_id = Inr i \<and> d_currency dn \<noteq> ''INR'' \<longrightarrow>
        \<not> isl (fst (initiate_donation True db dn now new_id)))
   \<and> (py_upper (bd_currency bdn) = ''INR'' \<and> tier_of (bd_scholarship bdn) = Some t \<longrightarrow>
        ((\<not> isl (fst (backend_initiate_donation True db bdn now new_id)))
           \<longleftrightarrow> within_tier t (bd_amount bdn))
        \<and> (\<not> within_tier t (bd_amount bdn) \<longrightarrow>
             backend_initiate_donation initialized db bdn now new_id =
               (Inl (HTTPException 400
                  (case t of Micro \<Rightarrow> Amount_out_of_micro_range
                   | Big \<Rightarrow> Amount_out_of_big_range)), db)))
   \<and> (py_upper (bd_currency bdn) \<noteq> ''INR'' \<longrightarrow>
        \<not> isl (fst (backend_initiate_donation True db bdn now new_id)))
   \<and> (tier_of (bd_scholarship bdn) = None \<longrightarrow>
        \<not> isl (fst (backend_initiate_donation True db bdn now new_id)))"
proof -
  have A: "oid new_id = Inr i \<and> d_currency dn = ''INR'' \<longrightarrow>
      ((\<not> isl (fst (initiate_donation True db dn now new_id)))
         \<longleftrightarrow> within_tier (d_scholarship dn) (d_amount dn))
      \<and> (\<not> within_tier (d_scholarship dn) (d_amount dn) \<longrightarrow>
           initiate_donation live db dn now new_id =
             (Inl (HTTPException 400
                (case d_scholarship dn of Micro \<Rightarrow> Micro_range | Big \<Rightarrow> Big_range)), db))"
    using initiate_donation_INR[of new_id i dn db now]
      initiate_donation_out_of_range[of dn live db now new_id]
    by simp
  have B: "oid new_id = Inr i \<and> d_currency dn \<noteq> ''INR'' \<longrightarrow>
        \<not> isl (fst (initiate_donation True db dn now new_id))"
    using initiate_donation_other_currency[of new_id i dn db now] by simp
  have C: "py_upper (bd_currency bdn) = ''INR'' \<and> tier_of (bd_scholarship bdn) = Some t \<longrightarrow>
        ((\<not> isl (fst (backend_initiate_donation True db bdn now new_id)))
           \<longleftrightarrow> within_tier t (bd_amount bdn))
        \<and> (\<not> within_tier t (bd_amount bdn) \<longrightarrow>
             backend_initiate_donation initialized db bdn now new_id =
               (Inl (HTTPException 400
                  (case t of Micro \<Rightarrow> Amount_out_of_micro_range
                   | Big \<Rightarrow> Amount_out_of_big_range)), db))"
    using backend_initiate_donation_INR[of bdn t db now new_id]
      backend_initiate_donation_out_of_range[of bdn t initialized db now new_id]
    by simp
  have D: "py_upper (bd_currency bdn) \<noteq> ''INR'' \<longrightarrow>
        \<not> isl (fst (backend_initiate_donation True db bdn now new_id))"
    using backend_initiate_donation_other_currency[of bdn db now new_id] by simp
  have E: "tier_of (bd_scholarship bdn) = None \<longrightarrow>
        \<not> isl (fst (backend_initiate_donation True db bdn now new_id))"
    using backend_initiate_donation_other_tier[of bdn db now new_id] by simp
  show ?thesis by (intro conjI A B C D E)
qed

theorem initiation_range_check_witness:
  "\<not> isl (fst (initiate_donation True example_db inr_5000 0 fresh_id))
   \<and> initiate_donation True example_db inr_5001 0 fresh_id
       = (Inl (HTTPException 400 Micro_range), example_db)
   \<and> backend_initiate_donation True example_db
        (example_backend_donation\<lparr>bd_currency := [CHR 0xC4, CHR 0xB1, CHR ''n'', CHR ''r'']\<rparr>)
        0 fresh_id
       = (Inl (HTTPException 400 Amount_out_of_micro_range), example_db)
   \<and> \<not> isl (fst (backend_initiate_donation True example_db
                   (example_backend_donation\<lparr>bd_scholarship := ''medium''\<rparr>) 0 fresh_id))"
proof -
  let ?dotless = "example_backend_donation\<lparr>bd_currency := [CHR 0xC4, CHR 0xB1, CHR ''n'', CHR ''r'']\<rparr>"
  let ?medium = "example_backend_donation\<lparr>bd_scholarship := ''medium''\<rparr>"
  have o: "oid fresh_id = Inr fresh_id" by (rule oid_ObjectId[OF ObjectId_fresh_id])
  have a: "d_currency inr_5000 = ''INR''" "within_tier (d_scholarship inr_5000) (d_amount inr_5000)"
    by (simp_all add: inr_5000_def example_donation_def)
  have b: "d_currency inr_5001 = ''INR''"
    "\<not> within_tier (d_scholarship inr_5001) (d_amount inr_5001)"
    "d_scholarship inr_5001 = Micro"
    by (simp_all add: inr_5001_def example_donation_def)
  have c: "py_upper (bd_currency ?dotless) = ''INR''"
    "tier_of (bd_scholarship ?dotless) = Some Micro"
    "\<not> within_tier Micro (bd_amount ?dotless)"
    by (simp_all add: example_backend_donation_def upper2_def upper3_def ascii_upper_def
          tier_of_def)
  have d: "tier_of (bd_scholarship ?medium) = None"
    by (simp add: tier_of_def)
  from initiation_range_check[of fresh_id fresh_id inr_5000 example_db 0 True
      example_backend_donation Micro True] o a
  have 1: "\<not> isl (fst (initiate_donation True example_db inr_5000 0 fresh_id))" by blast
  from initiation_range_check[of fresh_id fresh_id inr_5001 example_db 0 True
      example_backend_donation Micro True] o b(1,2)
  have "initiate_donation True example_db inr_5001 0 fresh_id =
             (Inl (HTTPException 400
                (case d_scholarship inr_5001 of Micro \<Rightarrow> Micro_range | Big \<Rightarrow> Big_range)), example_db)"
    by blast
  then have 2: "initiate_donation True example_db inr_5001 0 fresh_id
       = (Inl (HTTPException 400 Micro_range), example_db)"
    using b(3) by simp
  from initiation_range_check[of fresh_id fresh_id inr_5000 example_db 0 True ?dotless Micro True] c
  have 3: "backend_initiate_donation True example_db ?dotless 0 fresh_id
       = (Inl (HTTPException 400 Amount_out_of_micro_range), example_db)"
    by simp
  from initiation_range_check[of fresh_id fresh_id inr_5000 example_db 0 True ?medium Micro True] d
  have 4: "\<not> isl (fst (backend_initiate_donation True example_db ?medium 0 fresh_id))"
    by blast
  show ?thesis by (intro conjI 1 2 3 4)
qed

text \<open>
  The claim as stated cannot hold of both implementations: for a micro donation of 5 in
  the currency written \<open>inr\<close>, src/main.py does not check the range and accepts, and
  src/backend/main.py checks it and answers HTTP 400.
\<close>

theorem initiation_currency_case_counterexample:
  "d_currency example_donation = bd_currency example_backend_donation
   \<and> d_amount example_donation = bd_amount example_backend_donation
   \<and> scholarship_str (d_scholarship example_donation) = bd_scholarship example_backend_donation
   \<and> \<not> isl (fst (initiate_donation True example_db example_donation 0 fresh_id))
   \<and> fst (backend_initiate_donation True example_db example_backend_donation 0 fresh_id)
       = Inl (HTTPException 400 Amount_out_of_micro_range)"
  by (simp add: example_initiations) (simp add: example_donation_def example_backend_donation_def)

text \<open>
  C3, as amended. In src/main.py a successful initiation returns the reference
  \<open>EDC-<gateway>-<id>\<close> for the newly assigned id, the status \<open>created\<close> and no
  redirect URL, and (the id being fresh) the new donation is stored with that
  reference and status. In src/backend/main.py a successful initiation returns the
  status \<open>created\<close> and, as reference, the bare id of the new record.
\<close>

theorem payment_reference_format:
  "(initiate_donation live db dn now new_id = (Inr r, db') \<longrightarrow>
      r_reference r = ''EDC-'' @ gateway_str (d_gateway dn) @ ''-'' @ new_id
      \<and> r_status r = ''created'' \<and> r_redirect_url r = None
      \<and> (ObjectId new_id = Inr new_id \<and> new_id \<notin> fst ` set (db ''donation'') \<longrightarrow>
           (\<exists>d. db' ''donation'' = db ''donation'' @ [(new_id, d)]
                \<and> d ''payment_reference'' = Some (Str (r_reference r))
                \<and> d ''status'' = Some (Str ''created''))))
   \<and> (backend_initiate_donation initialized db bdn now new_id = (Inr (st, ref), db'') \<longrightarrow>
        st = ''created'' \<and> ref = new_id)"
proof -
  have A: "initiate_donation live db dn now new_id = (Inr r, db') \<longrightarrow>
      r_reference r = ''EDC-'' @ gateway_str (d_gateway dn) @ ''-'' @ new_id
      \<and> r_status r = ''created'' \<and> r_redirect_url r = None
      \<and> (ObjectId new_id = Inr new_id \<and> new_id \<notin> fst ` set (db ''donation'') \<longrightarrow>
           (\<exists>d. db' ''donation'' = db ''donation'' @ [(new_id, d)]
                \<and> d ''payment_reference'' = Some (Str (r_reference r))
                \<and> d ''status'' = Some (Str ''created'')))"
    using initiate_donation_response[of live db dn now new_id r db']
      initiate_donation_stored[of live db dn now new_id r db']
    by simp
  have B: "backend_initiate_donation initialized db bdn now new_id = (Inr (st, ref), db'') \<longrightarrow>
        st = ''created'' \<and> ref = new_id"
    using backend_initiate_donation_response[of initialized db bdn now new_id st ref db''] by simp
  show ?thesis by (intro conjI A B)
qed

theorem payment_reference_format_witness:
  "fst (initiate_donation True example_db example_donation 0 fresh_id) =
     Inr \<lparr>r_reference = ''EDC-upi-65a1b2c3d4e5f60718293a50'', r_redirect_url = None,
          r_status = ''created''\<rparr>
   \<and> snd (last (snd (initiate_donation True example_db example_donation 0 fresh_id) ''donation''))
        ''payment_reference'' = Some (Str ''EDC-upi-65a1b2c3d4e5f60718293a50'')"
proof -
  let ?r = "\<lparr>r_reference = ''EDC-upi-65a1b2c3d4e5f60718293a50'', r_redirect_url = None,
          r_status = ''created''\<rparr>"
  obtain db' where run: "initiate_donation True example_db example_donation 0 fresh_id = (Inr ?r, db')"
    using example_initiations(1)
    by (cases "initiate_donation True example_db example_donation 0 fresh_id") simp
  have fresh: "fresh_id \<notin> fst ` set (example_db ''donation'')"
    by (simp add: example_db_def fresh_id_def)
  from payment_reference_format[of True example_db example_donation 0 fresh_id ?r db'] run
    ObjectId_fresh_id fresh
  obtain d where "db' ''donation'' = example_db ''donation'' @ [(fresh_id, d)]"
    and "d ''payment_reference'' = Some (Str (r_reference ?r))"
    by blast
  then show ?thesis using run by simp
qed

text \<open>
  The claim as stated fails on src/backend/main.py: the reference returned for a
  donation through \<open>upi\<close> is the record id, without the prefix and the gateway.
\<close>

theorem backend_reference_counterexample:
  "fst (backend_initiate_donation True example_db (example_backend_donation\<lparr>bd_amount := 100\<rparr>)
          0 fresh_id) = Inr (''created'', fresh_id)
   \<and> fresh_id \<noteq> ''EDC-'' @ bd_gateway example_backend_donation @ ''-'' @ fresh_id"
  by (simp add: example_initiations)

subsection \<open>Creating a student\<close>

text \<open>
  C9. Whatever trust score the request carries, the student document stored by
  \<open>create_student\<close> has \<open>trust_score\<close> 0: the document is the dumped request with
  the two time stamps, and with \<open>trust_score\<close> overwritten. (The identifier that the
  driver generates is the string of an ObjectId, and no stored student has it yet.)
\<close>

theorem create_student_resets_trust_score:
  assumes "ObjectId new_id = Inr new_id" and "new_id \<notin> fst ` set (db ''student'')"
  shows "\<exists>db'. create_student True db student now new_id = (Inr new_id, db')
           \<and> db' ''student'' = db ''student''
                @ [(new_id, (Student_dump student)
                      (''created_at'' \<mapsto> Time now, ''updated_at'' \<mapsto> Time now,
                       ''trust_score'' \<mapsto> Num 0))]"
  using assms
  by (simp add: create_student_def create_document_def Let_def update_one_inserted)

theorem create_student_resets_trust_score_witness:
  "s_trust_score example_student = 88
   \<and> fst (create_student True example_db example_student 0 fresh_id) = Inr fresh_id
   \<and> snd (last (snd (create_student True example_db example_student 0 fresh_id) ''student''))
        ''trust_score'' = Some (Num 0)"
proof -
  have fresh: "fresh_id \<notin> fst ` set (example_db ''student'')"
    by (simp add: example_db_def fresh_id_def example_id_def)
  from create_student_resets_trust_score[of fresh_id example_db example_student 0]
    ObjectId_fresh_id fresh
  obtain db' where "create_student True example_db example_student 0 fresh_id = (Inr fresh_id, db')"
    and "db' ''student'' = example_db ''student''
           @ [(fresh_id, (Student_dump example_student)
                 (''created_at'' \<mapsto> Time 0, ''updated_at'' \<mapsto> Time 0,
                  ''trust_score'' \<mapsto> Num 0))]"
    by blast
  then show ?thesis by (simp add: example_student_def)
qed

subsection \<open>Submitting a proof\<close>

lemma compute_trust_score_unknown:
  assumes "\<forall>sid. oid student_id = Inr sid \<longrightarrow> sid \<notin> fst ` set (db ''student'')"
  shows "isl (compute_trust_score db student_id)"
proof (cases "oid student_id")
  case (Inl e)
  then show ?thesis by (simp add: compute_trust_score_def)
next
  case (Inr sid)
  with assms have "sid \<notin> fst ` set (db ''student'')" by simp
  then have "find_one (db ''student'') (Fields [(''_id'', Eq (Oid sid))]) = None"
    by (auto simp: find_one_None_iff)
  with Inr show ?thesis by (simp add: compute_trust_score_def)
qed

lemma submit_proof_result:
  "\<exists>ts db'. submit_proof True db pr now new_id = (Inr (new_id, ts), db')
     \<and> db' ''proofsubmission'' = db ''proofsubmission''
          @ [(new_id, (ProofSubmission_dump pr)
                (''created_at'' \<mapsto> Time now, ''updated_at'' \<mapsto> Time now))]
     \<and> (isl (compute_trust_score
               (db(''proofsubmission'' := db ''proofsubmission''
                     @ [(new_id, (ProofSubmission_dump pr)
                           (''created_at'' \<mapsto> Time now, ''updated_at'' \<mapsto> Time now))]))
               (p_student_id pr)) \<longrightarrow> ts = None \<and> db' ''student'' = db ''student'')"
  by (auto simp: submit_proof_def create_document_def Let_def insert_one_def split: sum.splits)

lemma submit_proof_store_unavailable:
  "submit_proof False db pr now new_id = (Inl StoreUnavailable, db)"
  by (simp add: submit_proof_def create_document_def)

text \<open>
  C10, as amended. On a live store \<open>submit_proof\<close> always returns the id of the new
  proof, and the proof is stored, whatever the student identifier; when the
  recomputation of the trust score fails, and so in particular when no student has that
  identifier, the returned \<open>trust_score\<close> is \<open>None\<close> and no student is touched. When
  the store has no live connection, the creation of the record fails before the guarded
  recomputation: \<open>submit_proof\<close> raises \<open>StoreUnavailable\<close> and nothing is stored.
\<close>

theorem submit_proof_on_live_store:
  "(\<exists>ts db'. submit_proof True db pr now new_id = (Inr (new_id, ts), db')
     \<and> db' ''proofsubmission'' = db ''proofsubmission''
          @ [(new_id, (ProofSubmission_dump pr)
                (''created_at'' \<mapsto> Time now, ''updated_at'' \<mapsto> Time now))]
     \<and> (isl (compute_trust_score
               (db(''proofsubmission'' := db ''proofsubmission''
                     @ [(new_id, (ProofSubmission_dump pr)
                           (''created_at'' \<mapsto> Time now, ''updated_at'' \<mapsto> Time now))]))
               (p_student_id pr)) \<longrightarrow> ts = None \<and> db' ''student'' = db ''student'')
     \<and> ((\<forall>sid. oid (p_student_id pr) = Inr sid \<longrightarrow> sid \<notin> fst ` set (db ''student''))
          \<longrightarrow> ts = None \<and> db' ''student'' = db ''student''))
   \<and> submit_proof False db pr now new_id = (Inl StoreUnavailable, db)"
proof -
  let ?db1 = "db(''proofsubmission'' := db ''proofsubmission''
                     @ [(new_id, (ProofSubmission_dump pr)
                           (''created_at'' \<mapsto> Time now, ''updated_at'' \<mapsto> Time now))])"
  have same: "?db1 ''student'' = db ''student''"
    by simp
  have unknown: "(\<forall>sid. oid (p_student_id pr) = Inr sid \<longrightarrow> sid \<notin> fst ` set (db ''student''))
          \<longrightarrow> isl (compute_trust_score ?db1 (p_student_id pr))"
    using compute_trust_score_unknown[of "p_student_id pr" ?db1] same by simp
  from submit_proof_result[of db pr now new_id] obtain ts db' where
    r: "submit_proof True db pr now new_id = (Inr (new_id, ts), db')"
       "db' ''proofsubmission'' = db ''proofsubmission''
          @ [(new_id, (ProofSubmission_dump pr)
                (''created_at'' \<mapsto> Time now, ''updated_at'' \<mapsto> Time now))]"
       "isl (compute_trust_score ?db1 (p_student_id pr)) \<longrightarrow> ts = None \<and> db' ''student'' = db ''student''"
    by blast
  with unknown have "\<exists>ts db'. submit_proof True db pr now new_id = (Inr (new_id, ts), db')
     \<and> db' ''proofsubmission'' = db ''proofsubmission''
          @ [(new_id, (ProofSubmission_dump pr)
                (''created_at'' \<mapsto> Time now, ''updated_at'' \<mapsto> Time now))]
     \<and> (isl (compute_trust_score ?db1 (p_student_id pr))
          \<longrightarrow> ts = None \<and> db' ''student'' = db ''student'')
     \<and> ((\<forall>sid. oid (p_student_id pr) = Inr sid \<longrightarrow> sid \<notin> fst ` set (db ''student''))
          \<longrightarrow> ts = None \<and> db' ''student'' = db ''student'')"
    by blast
  then show ?thesis using submit_proof_store_unavailable[of db pr now new_id] by blast
qed

theorem submit_proof_on_live_store_witness:
  "fst (submit_proof True example_db example_proof 0 fresh_id) = Inr (fresh_id, None)
   \<and> snd (submit_proof True example_db example_proof 0 fresh_id) ''student''
       = example_db ''student''"
proof -
  have "oid (p_student_id example_proof) = Inl (HTTPException 400 Invalid_ID)"
    by (simp add: example_proof_def oid_def ObjectId_def)
  then have "\<forall>sid. oid (p_student_id example_proof) = Inr sid
               \<longrightarrow> sid \<notin> fst ` set (example_db ''student'')"
    by simp
  with submit_proof_on_live_store[of example_db example_proof 0 fresh_id] show ?thesis
    by auto
qed

text \<open>
  The claim as stated fails when the store has no live connection: the submission
  raises, and the proof is not stored.
\<close>

theorem submit_proof_store_unavailable_counterexample:
  "submit_proof False example_db example_proof 0 fresh_id = (Inl StoreUnavailable, example_db)"
  by (simp add: submit_proof_def create_document_def)

subsection \<open>Submitting KYC documents\<close>

lemma submit_kyc_collection:
  "snd (submit_kyc live db payload now new_id) ''kycdocument'' =
     (case find_one (db ''kycdocument'') (Fields [(''student_id'', Eq (Str (k_student_id payload)))]) of
        Some e \<Rightarrow> update_one (db ''kycdocument'') (Fields [(''_id'', Eq (Oid (fst e)))])
                    (KYCDocument_dump payload)
      | None \<Rightarrow>
          if live
          then insert_one (db ''kycdocument'')
                 ((KYCDocument_dump payload)(''created_at'' \<mapsto> Time now, ''updated_at'' \<mapsto> Time now))
                 new_id
          else db ''kycdocument'')"
  by (simp add: submit_kyc_def create_document_def Let_def split: option.splits sum.splits)

lemma map_fst_update_one: "map fst (update_one c q p) = map fst c"
  by (induction c) auto

lemma count_update_one_same:
  assumes "\<forall>sd \<in> set c. matches q sd \<longrightarrow> matches q' (fst sd, snd sd ++ p) = matches q' sd"
  shows "count_documents (update_one c q p) q' = count_documents c q'"
  using assms by (induction c) (auto simp: count_documents_def)

lemma distinct_ids_same:
  assumes "distinct (map fst c)" and "e \<in> set c" and "sd \<in> set c" and "fst sd = fst e"
  shows "sd = e"
  using assms by (meson distinct_map inj_on_eq_iff)

lemma dump_student_id: "KYCDocument_dump payload ''student_id'' = Some (Str (k_student_id payload))"
  by (simp add: KYCDocument_dump_def)

text \<open>One submission, on the records counted by the string that the handler compares.\<close>

lemma submit_kyc_step:
  assumes d: "distinct (map fst (db ''kycdocument''))"
    and f: "new_id \<notin> fst ` set (db ''kycdocument'')"
    and u: "\<forall>k. kyc_keyed db k \<le> 1"
  shows "distinct (map fst (snd (submit_kyc live db payload now new_id) ''kycdocument''))
         \<and> (\<forall>k. kyc_keyed (snd (submit_kyc live db payload now new_id)) k \<le> 1)
         \<and> fst ` set (snd (submit_kyc live db payload now new_id) ''kycdocument'')
              \<subseteq> insert new_id (fst ` set (db ''kycdocument''))"
proof (cases "find_one (db ''kycdocument'') (Fields [(''student_id'', Eq (Str (k_student_id payload)))])")
  case None
  let ?c = "db ''kycdocument''"
  let ?d = "(KYCDocument_dump payload)(''created_at'' \<mapsto> Time now, ''updated_at'' \<mapsto> Time now)"
  show ?thesis
  proof (cases live)
    case False
    then have "snd (submit_kyc live db payload now new_id) ''kycdocument'' = ?c"
      using None by (simp add: submit_kyc_collection)
    then show ?thesis using d u by (auto simp: kyc_keyed_def)
  next
    case True
    then have c': "snd (submit_kyc live db payload now new_id) ''kycdocument'' = ?c @ [(new_id, ?d)]"
      using None by (simp add: submit_kyc_collection insert_one_def)
    have zero: "kyc_keyed db (k_student_id payload) = 0"
      using None by (simp add: kyc_keyed_def count_documents_def find_one_None_iff)
    have "kyc_keyed (snd (submit_kyc live db payload now new_id)) k \<le> 1" for k
    proof (cases "k = k_student_id payload")
      case True
      then show ?thesis using zero
        by (simp add: kyc_keyed_def c' count_documents_def)
    next
      case False
      then have "\<not> matches (Fields [(''student_id'', Eq (Str k))]) (new_id, ?d)"
        by (simp add: matches_str_field dump_student_id)
      then show ?thesis using u[rule_format, of k]
        by (simp add: kyc_keyed_def c' count_documents_def)
    qed
    then show ?thesis using d f by (auto simp: c')
  qed
next
  case (Some e)
  let ?c = "db ''kycdocument''"
  let ?p = "KYCDocument_dump payload"
  have c': "snd (submit_kyc live db payload now new_id) ''kycdocument''
              = update_one ?c (Fields [(''_id'', Eq (Oid (fst e)))]) ?p"
    using Some by (simp add: submit_kyc_collection)
  from find_one_SomeD[OF Some] have e: "e \<in> set ?c"
    and es: "snd e ''student_id'' = Some (Str (k_student_id payload))"
    by (simp_all add: matches_str_field)
  have same: "kyc_keyed (snd (submit_kyc live db payload now new_id)) k = kyc_keyed db k" for k
  proof -
    have "\<forall>sd \<in> set ?c. matches (Fields [(''_id'', Eq (Oid (fst e)))]) sd \<longrightarrow>
            matches (Fields [(''student_id'', Eq (Str k))]) (fst sd, snd sd ++ ?p)
              = matches (Fields [(''student_id'', Eq (Str k))]) sd"
    proof (intro ballI impI)
      fix sd assume "sd \<in> set ?c" and "matches (Fields [(''_id'', Eq (Oid (fst e)))]) sd"
      then have "sd = e" using distinct_ids_same[OF d e] by simp
      then show "matches (Fields [(''student_id'', Eq (Str k))]) (fst sd, snd sd ++ ?p)
              = matches (Fields [(''student_id'', Eq (Str k))]) sd"
        using es by (simp add: matches_str_field dump_student_id map_add_def)
    qed
    then show ?thesis
      by (simp add: kyc_keyed_def c' count_update_one_same)
  qed
  have ids: "map fst (snd (submit_kyc live db payload now new_id) ''kycdocument'') = map fst ?c"
    by (simp add: c' map_fst_update_one)
  have img: "fst ` set (snd (submit_kyc live db payload now new_id) ''kycdocument'') = fst ` set ?c"
    using arg_cong[OF ids, of set] by simp
  show ?thesis using d u same ids img by auto
qed

text \<open>Canonical keys stay canonical when the submitted \<open>student_id\<close> is canonical.\<close>

lemma canonical_keys_update_one:
  assumes "canonical_keys c" and "p ''student_id'' = Some (Str s)" and "canonical s"
  shows "canonical_keys (update_one c q p)"
  using assms by (induction c) (auto simp: canonical_keys_def map_add_def)

lemma submit_kyc_canonical:
  assumes "canonical_keys (db ''kycdocument'')" and "canonical (k_student_id payload)"
  shows "canonical_keys (snd (submit_kyc live db payload now new_id) ''kycdocument'')"
proof (cases "find_one (db ''kycdocument'') (Fields [(''student_id'', Eq (Str (k_student_id payload)))])")
  case None
  then show ?thesis using assms
    by (simp add: submit_kyc_collection insert_one_def canonical_keys_def dump_student_id)
next
  case (Some e)
  then show ?thesis
    using canonical_keys_update_one[of "db ''kycdocument''" "KYCDocument_dump payload"
        "k_student_id payload"] assms dump_student_id[of payload]
    by (simp add: submit_kyc_collection)
qed

lemma submit_kyc_all_keyed:
  assumes "distinct (map fst (db ''kycdocument''))"
    and "distinct (map (\<lambda>r. snd (snd (snd r))) requests)"
    and "\<forall>r \<in> set requests. snd (snd (snd r)) \<notin> fst ` set (db ''kycdocument'')"
    and "\<forall>k. kyc_keyed db k \<le> 1"
    and "canonical_keys (db ''kycdocument'')"
    and "\<forall>r \<in> set requests. canonical (k_student_id (fst (snd r)))"
  shows "(\<forall>k. kyc_keyed (submit_kyc_all db requests) k \<le> 1)
         \<and> canonical_keys (submit_kyc_all db requests ''kycdocument'')"
  using assms
proof (induction requests arbitrary: db)
  case Nil
  then show ?case by simp
next
  case (Cons r requests)
  obtain live payload now new_id where r: "r = (live, payload, now, new_id)" by (cases r)
  let ?db' = "snd (submit_kyc live db payload now new_id)"
  have f: "new_id \<notin> fst ` set (db ''kycdocument'')" using Cons.prems(3) r by auto
  note step = submit_kyc_step[OF Cons.prems(1) f Cons.prems(4), of live payload now]
  have "(\<forall>k. kyc_keyed (submit_kyc_all ?db' requests) k \<le> 1)
         \<and> canonical_keys (submit_kyc_all ?db' requests ''kycdocument'')"
  proof (rule Cons.IH)
    show "distinct (map fst (?db' ''kycdocument''))" using step by blast
    show "distinct (map (\<lambda>r. snd (snd (snd r))) requests)" using Cons.prems(2) by simp
    show "\<forall>r \<in> set requests. snd (snd (snd r)) \<notin> fst ` set (?db' ''kycdocument'')"
    proof
      fix r' assume r': "r' \<in> set requests"
      then have "snd (snd (snd r')) \<noteq> new_id" using Cons.prems(2) r by auto
      moreover have "snd (snd (snd r')) \<notin> fst ` set (db ''kycdocument'')"
        using Cons.prems(3) r' by auto
      ultimately show "snd (snd (snd r')) \<notin> fst ` set (?db' ''kycdocument'')"
        using step by blast
    qed
    show "\<forall>k. kyc_keyed ?db' k \<le> 1" using step by blast
    show "canonical_keys (?db' ''kycdocument'')"
      using submit_kyc_canonical[of db payload live now new_id] Cons.prems(5,6) r
      by simp
    show "\<forall>r \<in> set requests. canonical (k_student_id (fst (snd r)))"
      using Cons.prems(6) by simp
  qed
  then show ?case by (simp add: r)
qed

text \<open>The records of a student, and the records stored under a string.\<close>

lemma kyc_keyed_le_records: "kyc_keyed db k \<le> kyc_records db k"
  unfolding kyc_keyed_def kyc_records_def count_documents_def
  by (rule length_filter_mono) (simp add: matches_str_field kyc_of_student_def same_student_def)

lemma canonical_same_student:
  assumes "canonical s" and "same_student a s"
  shows "s = (case oid a of Inr i \<Rightarrow> i | Inl _ \<Rightarrow> a)"
  using assms by (auto simp: canonical_def same_student_def split: sum.splits)

lemma kyc_records_le_keyed:
  assumes "canonical_keys (db ''kycdocument'')"
  shows "kyc_records db a \<le> kyc_keyed db (case oid a of Inr i \<Rightarrow> i | Inl _ \<Rightarrow> a)"
  unfolding kyc_keyed_def kyc_records_def count_documents_def
proof (rule length_filter_mono, intro ballI impI)
  fix sd assume "sd \<in> set (db ''kycdocument'')" and "kyc_of_student a sd"
  then obtain s where "snd sd ''student_id'' = Some (Str s)" and "same_student a s"
    and "canonical s"
    using assms
    by (auto simp: kyc_of_student_def canonical_keys_def list_all_iff
          split: option.splits val.splits)
  then show "matches (Fields [(''student_id'',
                Eq (Str (case oid a of Inr i \<Rightarrow> i | Inl _ \<Rightarrow> a)))]) sd"
    using canonical_same_student[of s a] by (simp add: matches_str_field)
qed

lemma submit_kyc_all_unique:
  assumes "distinct (map fst (db ''kycdocument''))"
    and "distinct (map (\<lambda>r. snd (snd (snd r))) requests)"
    and "\<forall>r \<in> set requests. snd (snd (snd r)) \<notin> fst ` set (db ''kycdocument'')"
    and "canonical_keys (db ''kycdocument'')"
    and "\<forall>r \<in> set requests. canonical (k_student_id (fst (snd r)))"
    and "\<forall>a. kyc_records db a \<le> 1"
  shows "\<forall>a. kyc_records (submit_kyc_all db requests) a \<le> 1"
proof
  fix a
  have "\<forall>k. kyc_keyed db k \<le> 1"
    using assms(6) kyc_keyed_le_records[of db] by (meson le_trans)
  from submit_kyc_all_keyed[OF assms(1,2,3) this assms(4,5)]
  have k: "\<forall>k. kyc_keyed (submit_kyc_all db requests) k \<le> 1"
    and c: "canonical_keys (submit_kyc_all db requests ''kycdocument'')"
    by blast+
  from kyc_records_le_keyed[of "submit_kyc_all db requests" a] c k
  show "kyc_records (submit_kyc_all db requests) a \<le> 1" by (meson le_trans)
qed

lemma kyc_of_student_canonical:
  assumes "canonical a" and "canonical_keys c" and "sd \<in> set c"
  shows "kyc_of_student a sd \<longleftrightarrow> snd sd ''student_id'' = Some (Str a)"
proof
  assume "kyc_of_student a sd"
  then obtain s where s: "snd sd ''student_id'' = Some (Str s)" and "same_student a s"
    by (auto simp: kyc_of_student_def split: option.splits val.splits)
  moreover have "canonical s"
    using assms(2,3) s by (auto simp: canonical_keys_def list_all_iff)
  ultimately have "s = a"
    using assms(1) by (auto simp: canonical_def same_student_def split: sum.splits)
  with s show "snd sd ''student_id'' = Some (Str a)" by simp
next
  assume "snd sd ''student_id'' = Some (Str a)"
  then show "kyc_of_student a sd" by (simp add: kyc_of_student_def same_student_def)
qed

lemma find_kyc_of_student:
  assumes "canonical a" and "canonical_keys c"
  shows "List.find (kyc_of_student a) c = find_one c (Fields [(''student_id'', Eq (Str a))])"
  unfolding find_one_def
  using kyc_of_student_canonical[OF assms]
  by (intro find_same) (simp add: matches_str_field)

lemma backend_submit_kyc_adds:
  "kyc_records (snd (backend_submit_kyc True db doc now new_id)) (bk_student_id doc)
     = Suc (kyc_records db (bk_student_id doc))"
  by (simp add: backend_submit_kyc_def backend_create_document_def Let_def insert_one_def
        kyc_records_def kyc_of_student_def same_student_def backend_KYCDocument_dump_def)

lemma find_one_update_one_first:
  assumes "find_one c q = Some e" and "distinct (map fst c)"
    and "matches q (fst e, snd e ++ p)"
  shows "find_one (update_one c (Fields [(''_id'', Eq (Oid (fst e)))]) p) q
           = Some (fst e, snd e ++ p)"
  using assms
proof (induction c)
  case Nil
  then show ?case by (simp add: find_one_def)
next
  case (Cons sd ds)
  show ?case
  proof (cases "matches q sd")
    case True
    with Cons.prems(1) have "sd = e" by (simp add: find_one_def)
    then show ?thesis using Cons.prems(3) by (simp add: find_one_def)
  next
    case False
    with Cons.prems(1) have rest: "find_one ds q = Some e" by (simp add: find_one_def)
    then have "e \<in> set ds" using find_one_SomeD by blast
    then have "fst sd \<noteq> fst e" using Cons.prems(2) by force
    then show ?thesis
      using False Cons.IH[OF rest] Cons.prems(2,3) by (simp add: find_one_def)
  qed
qed

lemma submit_kyc_overwrites:
  assumes d: "distinct (map fst (db ''kycdocument''))"
    and ck: "canonical_keys (db ''kycdocument'')"
    and ca: "canonical (k_student_id payload)"
    and e: "List.find (kyc_of_student (k_student_id payload)) (db ''kycdocument'') = Some e"
  shows "snd (submit_kyc live db payload now new_id) ''kycdocument''
           = update_one (db ''kycdocument'') (Fields [(''_id'', Eq (Oid (fst e)))])
               (KYCDocument_dump payload)
         \<and> map fst (snd (submit_kyc live db payload now new_id) ''kycdocument'')
           = map fst (db ''kycdocument'')
         \<and> List.find (kyc_of_student (k_student_id payload))
              (snd (submit_kyc live db payload now new_id) ''kycdocument'')
             = Some (fst e, snd e ++ KYCDocument_dump payload)"
proof -
  let ?q = "Fields [(''student_id'', Eq (Str (k_student_id payload)))]"
  have e': "find_one (db ''kycdocument'') ?q = Some e"
    using e find_kyc_of_student[OF ca ck] by simp
  have m: "matches ?q (fst e, snd e ++ KYCDocument_dump payload)"
    by (simp add: matches_str_field dump_student_id map_add_def)
  have c': "snd (submit_kyc live db payload now new_id) ''kycdocument''
           = update_one (db ''kycdocument'') (Fields [(''_id'', Eq (Oid (fst e)))])
               (KYCDocument_dump payload)"
    using e' by (simp add: submit_kyc_collection)
  have "find_one (snd (submit_kyc live db payload now new_id) ''kycdocument'') ?q
          = Some (fst e, snd e ++ KYCDocument_dump payload)"
    using find_one_update_one_first[OF e' d m] by (simp add: c')
  then have "List.find (kyc_of_student (k_student_id payload))
              (snd (submit_kyc live db payload now new_id) ''kycdocument'')
             = Some (fst e, snd e ++ KYCDocument_dump payload)"
    using find_kyc_of_student[of "k_student_id payload"
        "snd (submit_kyc live db payload now new_id) ''kycdocument''"]
      submit_kyc_canonical[of db payload live now new_id] ck ca
    by simp
  then show ?thesis using c' by (simp add: map_fst_update_one)
qed

text \<open>
  C7, as amended. In src/main.py, with every \<open>student_id\<close>, stored or submitted, in
  canonical form: if no student has more than one KYC record (and the identifiers of
  the records are unique and the new ones fresh, as MongoDB guarantees), then after any
  sequence of KYC submissions no student has more than one; a submission for a student
  who has a record inserts nothing: it merges the submitted fields into that record,
  and leaves the other records, the identifiers and the order of the collection as they
  are. In src/backend/main.py every submission inserts a new record: the student has
  one more than before.
\<close>

theorem kyc_one_record_per_student:
  "(distinct (map fst (db ''kycdocument''))
      \<and> distinct (map (\<lambda>r. snd (snd (snd r))) requests)
      \<and> (\<forall>r \<in> set requests. snd (snd (snd r)) \<notin> fst ` set (db ''kycdocument''))
      \<and> canonical_keys (db ''kycdocument'')
      \<and> (\<forall>r \<in> set requests. canonical (k_student_id (fst (snd r))))
      \<and> (\<forall>a. kyc_records db a \<le> 1)
      \<longrightarrow> (\<forall>a. kyc_records (submit_kyc_all db requests) a \<le> 1))
   \<and> (distinct (map fst (db ''kycdocument''))
        \<and> canonical_keys (db ''kycdocument'')
        \<and> canonical (k_student_id payload)
        \<and> List.find (kyc_of_student (k_student_id payload)) (db ''kycdocument'') = Some e
      \<longrightarrow> snd (submit_kyc live db payload now new_id) ''kycdocument''
             = update_one (db ''kycdocument'') (Fields [(''_id'', Eq (Oid (fst e)))])
                 (KYCDocument_dump payload)
          \<and> map fst (snd (submit_kyc live db payload now new_id) ''kycdocument'')
             = map fst (db ''kycdocument'')
          \<and> List.find (kyc_of_student (k_student_id payload))
               (snd (submit_kyc live db payload now new_id) ''kycdocument'')
              = Some (fst e, snd e ++ KYCDocument_dump payload))
   \<and> kyc_records (snd (backend_submit_kyc True db doc now new_id)) (bk_student_id doc)
       = Suc (kyc_records db (bk_student_id doc))"
proof -
  have A: "distinct (map fst (db ''kycdocument''))
      \<and> distinct (map (\<lambda>r. snd (snd (snd r))) requests)
      \<and> (\<forall>r \<in> set requests. snd (snd (snd r)) \<notin> fst ` set (db ''kycdocument''))
      \<and> canonical_keys (db ''kycdocument'')
      \<and> (\<forall>r \<in> set requests. canonical (k_student_id (fst (snd r))))
      \<and> (\<forall>a. kyc_records db a \<le> 1)
      \<longrightarrow> (\<forall>a. kyc_records (submit_kyc_all db requests) a \<le> 1)"
    using submit_kyc_all_unique[of db requests] by blast
  have B: "distinct (map fst (db ''kycdocument''))
        \<and> canonical_keys (db ''kycdocument'')
        \<and> canonical (k_student_id payload)
        \<and> List.find (kyc_of_student (k_student_id payload)) (db ''kycdocument'') = Some e
      \<longrightarrow> snd (submit_kyc live db payload now new_id) ''kycdocument''
             = update_one (db ''kycdocument'') (Fields [(''_id'', Eq (Oid (fst e)))])
                 (KYCDocument_dump payload)
          \<and> map fst (snd (submit_kyc live db payload now new_id) ''kycdocument'')
             = map fst (db ''kycdocument'')
          \<and> List.find (kyc_of_student (k_student_id payload))
               (snd (submit_kyc live db payload now new_id) ''kycdocument'')
              = Some (fst e, snd e ++ KYCDocument_dump payload)"
    using submit_kyc_overwrites[of db payload e live now new_id] by blast
  show ?thesis by (intro conjI A B backend_submit_kyc_adds)
qed

lemma canonical_example_ids:
  "canonical example_id" "canonical ''65a1b2c3d4e5f60718293a77''"
   apply (simp add: canonical_def oid_example_id)
  apply (simp add: canonical_def oid_def ObjectId_def hexdigit_def lower_hex_def isspace_def)
  done

theorem kyc_one_record_per_student_witness:
  "kyc_records example_db example_id = 1
   \<and> kyc_records (submit_kyc_all example_db example_requests) example_id \<le> 1
   \<and> kyc_records (submit_kyc_all example_db example_requests) ''65a1b2c3d4e5f60718293a77'' \<le> 1"
proof -
  have 1: "distinct (map fst (example_db ''kycdocument''))"
    by (simp add: example_db_def)
  have 2: "distinct (map (\<lambda>r. snd (snd (snd r))) example_requests)"
    by (simp add: example_requests_def fresh_id_def)
  have 3: "\<forall>r \<in> set example_requests. snd (snd (snd r)) \<notin> fst ` set (example_db ''kycdocument'')"
    by (simp add: example_requests_def fresh_id_def example_db_def)
  have 4: "canonical_keys (example_db ''kycdocument'')"
    by (simp add: canonical_keys_def example_db_def canonical_example_ids)
  have 5: "\<forall>r \<in> set example_requests. canonical (k_student_id (fst (snd r)))"
    by (simp add: example_requests_def example_kyc_def canonical_example_ids)
  have 6: "\<forall>a. kyc_records example_db a \<le> 1"
    by (simp add: kyc_records_def example_db_def)
  have 7: "kyc_records example_db example_id = 1"
    by (simp add: kyc_records_def example_db_def kyc_of_student_def same_student_def)
  from kyc_one_record_per_student[of example_db example_requests] 1 2 3 4 5 6
  have "\<forall>a. kyc_records (submit_kyc_all example_db example_requests) a \<le> 1" by blast
  with 7 show ?thesis by blast
qed

text \<open>
  The claim as stated fails on src/backend/main.py: two submissions for one student
  leave two KYC records.
\<close>

theorem backend_kyc_counterexample:
  "kyc_records
     (snd (backend_submit_kyc True
             (snd (backend_submit_kyc True empty_db example_backend_kyc 1 fresh_id))
        example_backend_kyc 2 ''65a1b2c3d4e5f60718293a51''))
     (bk_student_id example_backend_kyc) = 2"
  by (simp add: backend_submit_kyc_adds)
     (simp add: kyc_records_def empty_db_def)

text \<open>
  \<open>submit_kyc\<close> looks for the existing record by the submitted string, and updates the
  student that the string denotes (lines 93 to 101 of src/main.py). A submission for
  the example student with her identifier in upper case does not find her record: it
  inserts a second one, and she has two.
\<close>

lemma submit_kyc_upper_case_id:
  "kyc_records example_db example_id = 1
   \<and> kyc_records
        (snd (submit_kyc True example_db (example_kyc\<lparr>k_student_id := upper_case_id\<rparr>) 1 fresh_id))
        example_id = 2"
proof -
  let ?payload = "example_kyc\<lparr>k_student_id := upper_case_id\<rparr>"
  have "find_one (example_db ''kycdocument'')
          (Fields [(''student_id'', Eq (Str (k_student_id ?payload)))]) = None"
    by (simp add: find_one_def example_db_def matches_str_field upper_case_id_def example_id_def)
  then have "snd (submit_kyc True example_db ?payload 1 fresh_id) ''kycdocument''
          = example_db ''kycdocument''
            @ [(fresh_id, (KYCDocument_dump ?payload)
                  (''created_at'' \<mapsto> Time 1, ''updated_at'' \<mapsto> Time 1))]"
    by (simp add: submit_kyc_collection insert_one_def)
  then have "kyc_records (snd (submit_kyc True example_db ?payload 1 fresh_id)) example_id = 2"
    by (simp add: kyc_records_def example_db_def kyc_of_student_def same_student_def
          dump_student_id oid_example_id oid_upper_case_id)
  moreover have "kyc_records example_db example_id = 1"
    by (simp add: kyc_records_def example_db_def kyc_of_student_def same_student_def)
  ultimately show ?thesis by simp
qed

subsection \<open>Discovering students\<close>


lemma limit_cursor_zero: "limit_cursor 0 xs = xs"
  by (simp add: limit_cursor_def)
















subsection \<open>The range of the score\<close>

text \<open>
  C6. Whatever the KYC document and the number of proofs, the score lies between 0 and
  100, and one more proof never lowers it.
\<close>

theorem score_of_bounded_monotone:
  "0 \<le> score_of kyc n \<and> score_of kyc n \<le> 100 \<and> score_of kyc n \<le> score_of kyc (Suc n)"
  by (cases kyc) (auto simp: score_of_def Let_def min_def max_def)

end
